theory Spec2Isabelle
  imports Complex_Main "HOL-Library.Multiset"
begin

section \<open>Values of the host language\<close>

text \<open>
  Request bodies arrive as parsed JSON. An object is the list of its members; a member is
  read with \<open>map_of\<close>. A string is the byte string of its UTF-8 encoding. A number in a
  body is an integer here: the handlers that follow read strings only, and any number
  fails their validation alike.
\<close>

datatype json =
    JNull
  | JBool bool
  | JNum int
  | JStr string
  | JArr "json list"
  | JObj "(string \<times> json) list"

text \<open>
  A JavaScript number: \<open>NaN\<close>, an integer, a finite number that is not an integer (the
  rational it denotes), or an infinity (\<open>Infinity True\<close> the positive one).
\<close>

datatype jsnum = NaN | Num int | Fraction rat | Infinity bool

text \<open>
  \<open>parseInt(s)\<close> with no radix, as ECMAScript defines it: leading white space is skipped,
  one sign is read, a \<open>0x\<close>/\<open>0X\<close> prefix selects radix 16 (radix 10 otherwise), the longest
  prefix of digits of that radix is the value, and no digit at all gives \<open>NaN\<close>. Only the
  ASCII white space characters are recognised, and the value is the exact integer
  (JavaScript rounds beyond \<open>2^53\<close>, far outside the range of any column).
\<close>

definition isWhiteSpace :: "char \<Rightarrow> bool" where
  "isWhiteSpace c = (c \<in> set [CHR 0x20, CHR 0x09, CHR 0x0A, CHR 0x0B, CHR 0x0C, CHR 0x0D])"

definition digitValue :: "char \<Rightarrow> nat option" where
  "digitValue c =
     (let n = (of_char c :: nat) in
      if 48 \<le> n \<and> n \<le> 57 then Some (n - 48)
      else if 97 \<le> n \<and> n \<le> 122 then Some (n - 87)
      else if 65 \<le> n \<and> n \<le> 90 then Some (n - 55)
      else None)"

definition radixDigit :: "nat \<Rightarrow> char \<Rightarrow> bool" where
  "radixDigit r c = (case digitValue c of None \<Rightarrow> False | Some d \<Rightarrow> d < r)"

definition digitsValue :: "nat \<Rightarrow> string \<Rightarrow> nat" where
  "digitsValue r ds =
     foldl (\<lambda>acc c. acc * r + (case digitValue c of None \<Rightarrow> 0 | Some d \<Rightarrow> d)) 0 ds"

definition parseInt :: "string \<Rightarrow> jsnum" where
  "parseInt s =
     (let s1 = dropWhile isWhiteSpace s;
          neg = (take 1 s1 = ''-'');
          s2 = (if take 1 s1 = ''-'' \<or> take 1 s1 = ''+'' then drop 1 s1 else s1);
          hex = (take 2 s2 = ''0x'' \<or> take 2 s2 = ''0X'');
          r = (if hex then 16 else 10);
          s3 = (if hex then drop 2 s2 else s2);
          ds = takeWhile (radixDigit r) s3
      in if ds = [] then NaN
         else Num (if neg then - int (digitsValue r ds) else int (digitsValue r ds)))"

definition isNaN :: "jsnum \<Rightarrow> bool" where
  "isNaN n = (case n of NaN \<Rightarrow> True | _ \<Rightarrow> False)"


section \<open>The schema (shared/schema.ts)\<close>

text \<open>
  One record per table row, one per insert type. A nullable column is an \<open>option\<close>
  (\<open>None\<close> is SQL \<open>NULL\<close>); a timestamp is a number on the server's clock. In an insert
  type a nullable column that also has a default distinguishes an omitted member
  (\<open>None\<close>: the default applies) from an explicit \<open>null\<close> (\<open>Some None\<close>). A member of
  type \<open>number\<close> that the caller supplies (in \<open>InsertProperty\<close> and \<open>PropertyFilter\<close>) is a
  JavaScript number; a stored integer column holds an integer.
\<close>

type_synonym timestamp = int

record property =
  p_id :: int
  p_title :: string
  p_description :: string
  p_address :: string
  p_city :: string
  p_location :: string
  p_type :: string
  p_category :: string
  p_price :: int
  p_priceUnit :: string
  p_displayPrice :: "string option"
  p_bedrooms :: "int option"
  p_bathrooms :: "int option"
  p_area :: "int option"
  p_amenities :: "string list option"
  p_features :: "string list option"
  p_images :: "string list"
  p_latitude :: "string option"
  p_longitude :: "string option"
  p_builderId :: "int option"
  p_status :: string
  p_featured :: "bool option"
  p_isNewLaunch :: "bool option"
  p_isExclusive :: "bool option"
  p_isReadyToMove :: "bool option"
  p_agentId :: "int option"

record insertProperty =
  ip_title :: string
  ip_description :: string
  ip_address :: string
  ip_city :: string
  ip_location :: string
  ip_type :: string
  ip_category :: string
  ip_price :: jsnum
  ip_priceUnit :: "string option"
  ip_displayPrice :: "string option"
  ip_bedrooms :: "jsnum option"
  ip_bathrooms :: "jsnum option"
  ip_area :: "jsnum option"
  ip_amenities :: "string list option"
  ip_features :: "string list option"
  ip_images :: "string list"
  ip_latitude :: "string option"
  ip_longitude :: "string option"
  ip_builderId :: "jsnum option"
  ip_status :: "string option"
  ip_featured :: "bool option option"
  ip_isNewLaunch :: "bool option option"
  ip_isExclusive :: "bool option option"
  ip_isReadyToMove :: "bool option option"
  ip_agentId :: "jsnum option"

record enquiry =
  e_id :: int
  e_name :: string
  e_email :: string
  e_phone :: string
  e_message :: string
  e_propertyId :: "int option"
  e_agentId :: "int option"
  e_interest :: "string option"
  e_createdAt :: "timestamp option"

record user =
  u_id :: int
  u_username :: string
  u_password :: string
  u_email :: "string option"
  u_name :: "string option"
  u_phone :: "string option"
  u_role :: string
  u_profileImage :: "string option"
  u_createdAt :: "timestamp option"

record insertUser =
  iu_username :: string
  iu_password :: string
  iu_email :: "string option"
  iu_name :: "string option"
  iu_phone :: "string option"

record savedProperty =
  s_id :: int
  s_userId :: int
  s_propertyId :: int
  s_createdAt :: "timestamp option"

record insertSavedProperty =
  is_userId :: int
  is_propertyId :: int

text \<open>\<open>PropertyFilter\<close>: every member optional (\<open>None\<close> is \<open>undefined\<close>).\<close>

record propertyFilter =
  f_category :: "string option"
  f_type :: "string option"
  f_city :: "string option"
  f_location :: "string option"
  f_minPrice :: "jsnum option"
  f_maxPrice :: "jsnum option"
  f_bedrooms :: "jsnum option"
  f_bathrooms :: "jsnum option"
  f_minArea :: "jsnum option"
  f_maxArea :: "jsnum option"
  f_status :: "string option"
  f_featured :: "bool option"


section \<open>The relational store\<close>

text \<open>
  A table is the list of its rows in storage order (an insert appends); a \<open>serial\<close>
  column draws from the table's sequence, kept as the last value given out. The agents
  table takes no part in the operations verified here and is left out. A sequence value
  drawn by a rejected insert is not counted, and the loss of the connection is not
  modelled.
\<close>

record database =
  users :: "user list"
  properties :: "property list"
  enquiries :: "enquiry list"
  savedProperties :: "savedProperty list"
  users_seq :: int
  properties_seq :: int
  enquiries_seq :: int
  savedProperties_seq :: int

text \<open>
  The errors a statement raises: the database rejects a parameter it cannot read as the
  type of its column (SQLSTATE class 22, data exception), a row that breaks a unique
  constraint, or a text too long for the index of a unique column (class 54, program
  limit exceeded), and the query builder rejects an update that sets nothing.
\<close>

datatype dbError = DataException | UniqueViolation | ProgramLimitExceeded | NoValuesToSet

text \<open>
  A parameter for an \<open>integer\<close> column must be an integer of 32 bits: a larger
  integer is out of range, and \<open>NaN\<close>, a fraction or an infinity is not the text of an
  integer. A \<open>text\<close> parameter, or a string inside a \<open>jsonb\<close> value, must not contain
  the character U+0000.
\<close>

definition int4 :: "int \<Rightarrow> bool" where
  "int4 n = (- 2147483648 \<le> n \<and> n \<le> 2147483647)"

definition intParam :: "jsnum \<Rightarrow> dbError + int" where
  "intParam v = (case v of Num n \<Rightarrow> if int4 n then Inr n else Inl DataException
                 | _ \<Rightarrow> Inl DataException)"

definition textOk :: "string \<Rightarrow> bool" where
  "textOk s = (CHR 0x00 \<notin> set s)"

definition textParam :: "string \<Rightarrow> dbError + string" where
  "textParam s = (if textOk s then Inr s else Inl DataException)"

text \<open>
  The conditions \<open>getProperties\<close> builds (\<open>eq\<close>, \<open>gte\<close>, \<open>lte\<close> on a column of
  \<open>properties\<close>), with their parameters bound, evaluated in SQL's three-valued logic: a
  comparison with \<open>NULL\<close> is unknown (\<open>None\<close>), and \<open>WHERE\<close> keeps the rows whose
  condition is true.
\<close>

datatype textColumn = ColCategory | ColType | ColCity | ColLocation | ColStatus
datatype intColumn = ColPrice | ColBedrooms | ColBathrooms | ColArea
datatype boolColumn = ColFeatured

datatype condition =
    EqText textColumn string
  | EqBool boolColumn bool
  | Gte intColumn int
  | Lte intColumn int

fun textValue :: "textColumn \<Rightarrow> property \<Rightarrow> string" where
  "textValue ColCategory p = p_category p"
| "textValue ColType p = p_type p"
| "textValue ColCity p = p_city p"
| "textValue ColLocation p = p_location p"
| "textValue ColStatus p = p_status p"

fun intValue :: "intColumn \<Rightarrow> property \<Rightarrow> int option" where
  "intValue ColPrice p = Some (p_price p)"
| "intValue ColBedrooms p = p_bedrooms p"
| "intValue ColBathrooms p = p_bathrooms p"
| "intValue ColArea p = p_area p"

fun boolValue :: "boolColumn \<Rightarrow> property \<Rightarrow> bool option" where
  "boolValue ColFeatured p = p_featured p"

fun evalCondition :: "condition \<Rightarrow> property \<Rightarrow> bool option" where
  "evalCondition (EqText c v) p = Some (textValue c p = v)"
| "evalCondition (EqBool c v) p = map_option (\<lambda>x. x = v) (boolValue c p)"
| "evalCondition (Gte c v) p = map_option (\<lambda>x. v \<le> x) (intValue c p)"
| "evalCondition (Lte c v) p = map_option (\<lambda>x. x \<le> v) (intValue c p)"

text \<open>SQL \<open>AND\<close> of two truth values, and \<open>and(...conditions)\<close> over a list.\<close>

fun sqlAnd :: "bool option \<Rightarrow> bool option \<Rightarrow> bool option" where
  "sqlAnd (Some False) _ = Some False"
| "sqlAnd _ (Some False) = Some False"
| "sqlAnd (Some True) (Some True) = Some True"
| "sqlAnd _ _ = None"

definition andConditions :: "condition list \<Rightarrow> property \<Rightarrow> bool option" where
  "andConditions cs p = foldr (\<lambda>c acc. sqlAnd (evalCondition c p) acc) cs (Some True)"

definition selectWhere :: "('r \<Rightarrow> bool option) \<Rightarrow> 'r list \<Rightarrow> 'r list" where
  "selectWhere cond rows = filter (\<lambda>r. cond r = Some True) rows"

text \<open>
  A condition of the query builder carries its parameter as the caller gave it; it is
  either bound or a rejected parameter. The statement runs when every parameter is bound,
  and raises the first rejection otherwise.
\<close>

definition bound :: "('a \<Rightarrow> condition) \<Rightarrow> dbError + 'a \<Rightarrow> dbError + condition" where
  "bound mk v = (case v of Inl e \<Rightarrow> Inl e | Inr x \<Rightarrow> Inr (mk x))"

fun allBound :: "(dbError + 'a) list \<Rightarrow> dbError + 'a list" where
  "allBound [] = Inr []"
| "allBound (Inl e # rest) = Inl e"
| "allBound (Inr x # rest) = (case allBound rest of Inl e \<Rightarrow> Inl e | Inr xs \<Rightarrow> Inr (x # xs))"


section \<open>The persistence adapter (server/storage.ts)\<close>

subsection \<open>Properties\<close>

text \<open>
  \<open>if (filter.category) push(eq(...))\<close>: a string member contributes when it is truthy,
  that is present and not the empty string. \<open>if (filter.minPrice !== undefined)\<close>: a
  numeric or boolean member contributes whenever it is present.
\<close>

definition truthyText ::
  "(string \<Rightarrow> condition) \<Rightarrow> string option \<Rightarrow> (dbError + condition) list" where
  "truthyText mk v =
     (case v of None \<Rightarrow> [] | Some s \<Rightarrow> if s = [] then [] else [bound mk (textParam s)])"

definition definedNumber ::
  "(int \<Rightarrow> condition) \<Rightarrow> jsnum option \<Rightarrow> (dbError + condition) list" where
  "definedNumber mk v = (case v of None \<Rightarrow> [] | Some n \<Rightarrow> [bound mk (intParam n)])"

definition defined :: "(bool \<Rightarrow> condition) \<Rightarrow> bool option \<Rightarrow> (dbError + condition) list" where
  "defined mk v = (case v of None \<Rightarrow> [] | Some x \<Rightarrow> [Inr (mk x)])"

definition queryConditions :: "propertyFilter option \<Rightarrow> (dbError + condition) list" where
  "queryConditions filt =
     (case filt of
        None \<Rightarrow> []
      | Some f \<Rightarrow>
          truthyText (EqText ColCategory) (f_category f)
          @ truthyText (EqText ColType) (f_type f)
          @ truthyText (EqText ColCity) (f_city f)
          @ truthyText (EqText ColLocation) (f_location f)
          @ definedNumber (Gte ColPrice) (f_minPrice f)
          @ definedNumber (Lte ColPrice) (f_maxPrice f)
          @ definedNumber (Gte ColBedrooms) (f_bedrooms f)
          @ definedNumber (Gte ColBathrooms) (f_bathrooms f)
          @ definedNumber (Gte ColArea) (f_minArea f)
          @ definedNumber (Lte ColArea) (f_maxArea f)
          @ truthyText (EqText ColStatus) (f_status f)
          @ defined (EqBool ColFeatured) (f_featured f))"

definition getProperties :: "database \<Rightarrow> propertyFilter option \<Rightarrow> dbError + property list" where
  "getProperties db filt =
     (let cs = queryConditions filt in
      if length cs > 0 then
        (case allBound cs of
           Inl e \<Rightarrow> Inl e
         | Inr bs \<Rightarrow> Inr (selectWhere (andConditions bs) (properties db)))
      else Inr (properties db))"

definition getProperty :: "database \<Rightarrow> jsnum \<Rightarrow> dbError + property option" where
  "getProperty db i =
     (case intParam i of
        Inl e \<Rightarrow> Inl e
      | Inr n \<Rightarrow>
          Inr (case filter (\<lambda>p. p_id p = n) (properties db) of [] \<Rightarrow> None | p # _ \<Rightarrow> Some p))"

text \<open>
  \<open>.limit(limit)\<close>: the query builder adds the clause when the limit is a number that is
  not negative, and the clause's parameter must be a whole number of 64 bits.
\<close>

definition limitRows :: "jsnum \<Rightarrow> 'r list \<Rightarrow> dbError + 'r list" where
  "limitRows limit rows =
     (case limit of
        NaN \<Rightarrow> Inr rows
      | Num n \<Rightarrow>
          if n < 0 then Inr rows
          else if n \<le> 9223372036854775807 then Inr (take (nat n) rows)
          else Inl DataException
      | Fraction q \<Rightarrow> if q < 0 then Inr rows else Inl DataException
      | Infinity positive \<Rightarrow> if positive then Inl DataException else Inr rows)"

definition withDefault :: "'a \<Rightarrow> 'a option \<Rightarrow> 'a" where
  "withDefault d v = (case v of None \<Rightarrow> d | Some x \<Rightarrow> x)"

definition getFeaturedProperties :: "database \<Rightarrow> jsnum option \<Rightarrow> dbError + property list" where
  "getFeaturedProperties db limit =
     limitRows (withDefault (Num 10) limit)
       (filter (\<lambda>p. p_featured p = Some True) (properties db))"

definition getPropertiesByCity ::
  "database \<Rightarrow> string \<Rightarrow> jsnum option \<Rightarrow> dbError + property list" where
  "getPropertiesByCity db city limit =
     (case textParam city of
        Inl e \<Rightarrow> Inl e
      | Inr c \<Rightarrow>
          limitRows (withDefault (Num 10) limit) (filter (\<lambda>p. p_city p = c) (properties db)))"

text \<open>
  \<open>createProperty\<close> inserts the value it is given, with no check of its own: the row gets
  the next id, an omitted member with a column default gets the default, and every other
  member is stored as it is, unless the database rejects one of them as a parameter; then
  nothing is stored. The default of \<open>price_unit\<close> is the rupee sign (three bytes in
  UTF-8).
\<close>

definition optionalInt :: "jsnum option \<Rightarrow> dbError + int option" where
  "optionalInt v =
     (case v of
        None \<Rightarrow> Inr None
      | Some n \<Rightarrow> (case intParam n of Inl e \<Rightarrow> Inl e | Inr k \<Rightarrow> Inr (Some k)))"

definition optionalTexts :: "string option \<Rightarrow> string list" where
  "optionalTexts v = (case v of None \<Rightarrow> [] | Some s \<Rightarrow> [s])"

definition jsonTexts :: "string list option \<Rightarrow> string list" where
  "jsonTexts v = (case v of None \<Rightarrow> [] | Some ss \<Rightarrow> ss)"

definition propertyTexts :: "insertProperty \<Rightarrow> string list" where
  "propertyTexts ip =
     [ip_title ip, ip_description ip, ip_address ip, ip_city ip, ip_location ip, ip_type ip,
      ip_category ip]
     @ optionalTexts (ip_priceUnit ip) @ optionalTexts (ip_displayPrice ip)
     @ jsonTexts (ip_amenities ip) @ jsonTexts (ip_features ip) @ ip_images ip
     @ optionalTexts (ip_latitude ip) @ optionalTexts (ip_longitude ip)
     @ optionalTexts (ip_status ip)"

definition insertedProperty :: "int \<Rightarrow> insertProperty \<Rightarrow> dbError + property" where
  "insertedProperty i ip =
     (case (intParam (ip_price ip), optionalInt (ip_bedrooms ip), optionalInt (ip_bathrooms ip),
            optionalInt (ip_area ip), optionalInt (ip_builderId ip), optionalInt (ip_agentId ip)) of
        (Inr price, Inr bedrooms, Inr bathrooms, Inr area, Inr builderId, Inr agentId) \<Rightarrow>
          if list_all textOk (propertyTexts ip) then
            Inr \<lparr> p_id = i,
                  p_title = ip_title ip,
                  p_description = ip_description ip,
                  p_address = ip_address ip,
                  p_city = ip_city ip,
                  p_location = ip_location ip,
                  p_type = ip_type ip,
                  p_category = ip_category ip,
                  p_price = price,
                  p_priceUnit = withDefault [CHR 0xE2, CHR 0x82, CHR 0xB9] (ip_priceUnit ip),
                  p_displayPrice = ip_displayPrice ip,
                  p_bedrooms = bedrooms,
                  p_bathrooms = bathrooms,
                  p_area = area,
                  p_amenities = ip_amenities ip,
                  p_features = ip_features ip,
                  p_images = ip_images ip,
                  p_latitude = ip_latitude ip,
                  p_longitude = ip_longitude ip,
                  p_builderId = builderId,
                  p_status = withDefault ''available'' (ip_status ip),
                  p_featured = withDefault (Some False) (ip_featured ip),
                  p_isNewLaunch = withDefault (Some False) (ip_isNewLaunch ip),
                  p_isExclusive = withDefault (Some False) (ip_isExclusive ip),
                  p_isReadyToMove = withDefault (Some False) (ip_isReadyToMove ip),
                  p_agentId = agentId \<rparr>
          else Inl DataException
      | _ \<Rightarrow> Inl DataException)"

definition createProperty ::
  "database \<Rightarrow> insertProperty \<Rightarrow> dbError + (property \<times> database)" where
  "createProperty db ip =
     (let i = properties_seq db + 1 in
      case insertedProperty i ip of
        Inl e \<Rightarrow> Inl e
      | Inr row \<Rightarrow> Inr (row, db\<lparr> properties := properties db @ [row], properties_seq := i \<rparr>))"
subsection \<open>Users\<close>

text \<open>
  What a request depends on besides the store: the database clock (\<open>defaultNow()\<close>),
  bcrypt (\<open>hash\<close> with the salt drawn for the call at cost 10, and \<open>compare\<close>), and
  zod's test of an e-mail address. They are libraries, taken as parameters. So is the
  limit of the database on the entries of an index: \<open>fitsIndex s\<close> says that the text
  \<open>s\<close>, compressed as the engine compresses it, fits an entry of the index of a unique
  column (about a third of a page).
\<close>

record environment =
  now :: timestamp
  bcryptHash :: "string \<Rightarrow> string"
  bcryptCompare :: "string \<Rightarrow> string \<Rightarrow> bool"
  isEmail :: "string \<Rightarrow> bool"
  fitsIndex :: "string \<Rightarrow> bool"

text \<open>
  An id that a method receives from the session or from a stored row is the id of an
  integer column and is used as it is. A text or a number that comes from the request is
  checked as the database checks a parameter.
\<close>

definition getUser :: "database \<Rightarrow> int \<Rightarrow> user option" where
  "getUser db i =
     (case filter (\<lambda>u. u_id u = i) (users db) of [] \<Rightarrow> None | u # _ \<Rightarrow> Some u)"

definition getUserByUsername :: "database \<Rightarrow> string \<Rightarrow> dbError + user option" where
  "getUserByUsername db username =
     (case textParam username of
        Inl e \<Rightarrow> Inl e
      | Inr n \<Rightarrow>
          Inr (case filter (\<lambda>u. u_username u = n) (users db) of [] \<Rightarrow> None | u # _ \<Rightarrow> Some u))"

text \<open>
  The table declares \<open>username\<close> and \<open>email\<close> unique. A row conflicts with another when
  it has the same username, or the same e-mail that is not \<open>NULL\<close>; the statement that
  would store a conflicting row raises instead and stores nothing, and so does one whose
  username or e-mail does not fit the index. The parameters are checked first.
\<close>

definition usersConflict :: "user \<Rightarrow> user \<Rightarrow> bool" where
  "usersConflict new old =
     (u_username old = u_username new \<or> (u_email new \<noteq> None \<and> u_email old = u_email new))"

definition insertIntoUsers ::
  "environment \<Rightarrow> database \<Rightarrow> insertUser \<Rightarrow> dbError + (user \<times> database)" where
  "insertIntoUsers env db v =
     (let i = users_seq db + 1;
          row = \<lparr> u_id = i,
                  u_username = iu_username v,
                  u_password = iu_password v,
                  u_email = iu_email v,
                  u_name = iu_name v,
                  u_phone = iu_phone v,
                  u_role = ''user'',
                  u_profileImage = None,
                  u_createdAt = Some (now env) \<rparr>
      in if \<not> list_all textOk
                 ([iu_username v, iu_password v] @ optionalTexts (iu_email v)
                  @ optionalTexts (iu_name v) @ optionalTexts (iu_phone v))
         then Inl DataException
         else if \<not> list_all (fitsIndex env) (iu_username v # optionalTexts (iu_email v))
         then Inl ProgramLimitExceeded
         else if list_ex (usersConflict row) (users db) then Inl UniqueViolation
         else Inr (row, db\<lparr> users := users db @ [row], users_seq := i \<rparr>))"

definition createUser ::
  "environment \<Rightarrow> database \<Rightarrow> insertUser \<Rightarrow> dbError + (user \<times> database)" where
  "createUser env db insertUser =
     (let hashedPassword = bcryptHash env (iu_password insertUser)
      in insertIntoUsers env db (insertUser\<lparr> iu_password := hashedPassword \<rparr>))"

text \<open>
  \<open>Partial<Omit<User, 'id' | 'password'>>\<close>: any of the other columns, each optional
  (\<open>None\<close> is an omitted member, which \<open>set\<close> skips).
\<close>

record userUpdates =
  up_username :: "string option"
  up_email :: "string option option"
  up_name :: "string option option"
  up_phone :: "string option option"
  up_role :: "string option"
  up_profileImage :: "string option option"
  up_createdAt :: "timestamp option option"

definition noValues :: "userUpdates \<Rightarrow> bool" where
  "noValues up =
     (up_username up = None \<and> up_email up = None \<and> up_name up = None \<and> up_phone up = None
      \<and> up_role up = None \<and> up_profileImage up = None \<and> up_createdAt up = None)"

definition nullableTexts :: "string option option \<Rightarrow> string list" where
  "nullableTexts v = (case v of Some (Some s) \<Rightarrow> [s] | _ \<Rightarrow> [])"

definition updateTexts :: "userUpdates \<Rightarrow> string list" where
  "updateTexts up =
     optionalTexts (up_username up) @ nullableTexts (up_email up) @ nullableTexts (up_name up)
     @ nullableTexts (up_phone up) @ optionalTexts (up_role up)
     @ nullableTexts (up_profileImage up)"

definition applyUpdates :: "userUpdates \<Rightarrow> user \<Rightarrow> user" where
  "applyUpdates up u =
     u\<lparr> u_username := withDefault (u_username u) (up_username up),
        u_email := withDefault (u_email u) (up_email up),
        u_name := withDefault (u_name u) (up_name up),
        u_phone := withDefault (u_phone u) (up_phone up),
        u_role := withDefault (u_role u) (up_role up),
        u_profileImage := withDefault (u_profileImage u) (up_profileImage up),
        u_createdAt := withDefault (u_createdAt u) (up_createdAt up) \<rparr>"

text \<open>
  \<open>db.update(users).set(updates).where(eq(users.id, id)).returning()\<close>: \<open>set\<close> raises
  when no member is given; a text the database cannot store raises; a row that would
  conflict with a row of another id raises; otherwise the rows with that id are rewritten
  in place and returned. A statement that matches no row changes and checks no index.
\<close>

definition updateUsersSet ::
  "environment \<Rightarrow> database \<Rightarrow> int \<Rightarrow> userUpdates \<Rightarrow> dbError + (user list \<times> database)" where
  "updateUsersSet env db i up =
     (let rows = map (\<lambda>u. if u_id u = i then applyUpdates up u else u) (users db);
          changed = filter (\<lambda>u. u_id u = i) rows
      in if noValues up then Inl NoValuesToSet
         else if \<not> list_all textOk (updateTexts up) then Inl DataException
         else if changed \<noteq> []
                 \<and> \<not> list_all (fitsIndex env)
                       (optionalTexts (up_username up) @ nullableTexts (up_email up))
         then Inl ProgramLimitExceeded
         else if list_ex (\<lambda>new. list_ex (\<lambda>old. u_id old \<noteq> i \<and> usersConflict new old) (users db))
                   changed
         then Inl UniqueViolation
         else Inr (changed, db\<lparr> users := rows \<rparr>))"

text \<open>The \<open>try\<close>/\<open>catch\<close> of \<open>updateUser\<close> turns every error into \<open>undefined\<close>.\<close>

definition updateUser ::
  "environment \<Rightarrow> database \<Rightarrow> int \<Rightarrow> userUpdates \<Rightarrow> user option \<times> database" where
  "updateUser env db i updates =
     (case getUser db i of
        None \<Rightarrow> (None, db)
      | Some userExists \<Rightarrow>
          (case updateUsersSet env db i updates of
             Inl err \<Rightarrow> (None, db)
           | Inr (returned, db') \<Rightarrow>
               (case returned of [] \<Rightarrow> (None, db') | updatedUser # _ \<Rightarrow> (Some updatedUser, db'))))"

subsection \<open>Enquiries and saved properties\<close>

text \<open>
  \<open>orderBy(desc(column))\<close> on a nullable timestamp: PostgreSQL sorts \<open>NULL\<close> as larger
  than every value, so a descending order has the \<open>NULL\<close>s first and then the timestamps
  from the latest to the earliest. \<open>descBefore a b\<close> says that \<open>a\<close> may stand before \<open>b\<close>.
  The database leaves the order of rows with equal keys open; here they keep their
  storage order.
\<close>

fun descBefore :: "timestamp option \<Rightarrow> timestamp option \<Rightarrow> bool" where
  "descBefore None _ = True"
| "descBefore (Some a) None = False"
| "descBefore (Some a) (Some b) = (b \<le> a)"

fun insertDesc :: "('r \<Rightarrow> timestamp option) \<Rightarrow> 'r \<Rightarrow> 'r list \<Rightarrow> 'r list" where
  "insertDesc key x [] = [x]"
| "insertDesc key x (y # ys) =
     (if descBefore (key x) (key y) then x # y # ys else y # insertDesc key x ys)"

definition orderByDesc :: "('r \<Rightarrow> timestamp option) \<Rightarrow> 'r list \<Rightarrow> 'r list" where
  "orderByDesc key rows = foldr (insertDesc key) rows []"

definition getEnquiries :: "database \<Rightarrow> enquiry list" where
  "getEnquiries db = orderByDesc e_createdAt (enquiries db)"

text \<open>
  The query of \<open>getSavedProperties\<close> (the source's \<open>result\<close>, before the final
  \<open>map\<close>): saved rows joined with the property they name, restricted to the user,
  ordered by the saved row's timestamp.
\<close>

definition innerJoin :: "savedProperty list \<Rightarrow> property list \<Rightarrow> (savedProperty \<times> property) list" where
  "innerJoin ss ps =
     concat (map (\<lambda>s. map (Pair s) (filter (\<lambda>p. s_propertyId s = p_id p) ps)) ss)"

definition savedPropertiesResult :: "database \<Rightarrow> int \<Rightarrow> (savedProperty \<times> property) list" where
  "savedPropertiesResult db userId =
     orderByDesc (\<lambda>r. s_createdAt (fst r))
       (filter (\<lambda>r. s_userId (fst r) = userId)
         (innerJoin (savedProperties db) (properties db)))"

definition getSavedProperties :: "database \<Rightarrow> int \<Rightarrow> property list" where
  "getSavedProperties db userId = map snd (savedPropertiesResult db userId)"

definition savedPair :: "int \<Rightarrow> int \<Rightarrow> savedProperty \<Rightarrow> bool" where
  "savedPair userId propertyId s = (s_userId s = userId \<and> s_propertyId s = propertyId)"

definition saveProperty ::
  "environment \<Rightarrow> database \<Rightarrow> insertSavedProperty \<Rightarrow> savedProperty \<times> database" where
  "saveProperty env db savedProperty =
     (let existing =
            filter (savedPair (is_userId savedProperty) (is_propertyId savedProperty))
              (savedProperties db)
      in case existing of
           first # _ \<Rightarrow> (first, db)
         | [] \<Rightarrow>
             (let i = savedProperties_seq db + 1;
                  newSavedProperty =
                    \<lparr> s_id = i,
                      s_userId = is_userId savedProperty,
                      s_propertyId = is_propertyId savedProperty,
                      s_createdAt = Some (now env) \<rparr>
              in (newSavedProperty,
                  db\<lparr> savedProperties := savedProperties db @ [newSavedProperty],
                      savedProperties_seq := i \<rparr>)))"

text \<open>
  \<open>unsaveProperty\<close> is given the id of the session user and the number the handler
  parsed from the path; both are parameters of the \<open>DELETE\<close>.
\<close>

definition unsaveProperty :: "database \<Rightarrow> int \<Rightarrow> jsnum \<Rightarrow> dbError + database" where
  "unsaveProperty db userId propertyId =
     (case (intParam (Num userId), intParam propertyId) of
        (Inr u, Inr p) \<Rightarrow>
          Inr (db\<lparr> savedProperties :=
                     filter (\<lambda>s. \<not> savedPair u p s) (savedProperties db) \<rparr>)
      | _ \<Rightarrow> Inl DataException)"


definition isPropertySaved :: "database \<Rightarrow> int \<Rightarrow> int \<Rightarrow> bool" where
  "isPropertySaved db userId propertyId =
     (length (filter (savedPair userId propertyId) (savedProperties db)) > 0)"

section \<open>Validation (zod schemas)\<close>

text \<open>
  \<open>safeParse\<close> returns the parsed data or the list of issues, an issue being the member
  it is about and its code. An object schema reads the members it declares and drops every
  other member of the input.
\<close>

type_synonym issue = "string \<times> string"

definition zString :: "string \<Rightarrow> (string \<Rightarrow> string list) \<Rightarrow> json \<Rightarrow> issue list + string" where
  "zString k checks j =
     (case j of
        JStr s \<Rightarrow> (case checks s of [] \<Rightarrow> Inr s | c # cs \<Rightarrow> Inl (map (Pair k) (c # cs)))
      | _ \<Rightarrow> Inl [(k, ''invalid_type'')])"

definition noChecks :: "string \<Rightarrow> string list" where
  "noChecks s = []"

definition minLength :: "nat \<Rightarrow> string \<Rightarrow> string list" where
  "minLength n s = (if n \<le> length s then [] else [''too_small''])"

definition emailCheck :: "environment \<Rightarrow> string \<Rightarrow> string list" where
  "emailCheck env s = (if isEmail env s then [] else [''invalid_string''])"

definition required :: "string \<Rightarrow> (json \<Rightarrow> issue list + 'a) \<Rightarrow> json option \<Rightarrow> issue list + 'a" where
  "required k schema v = (case v of None \<Rightarrow> Inl [(k, ''invalid_type'')] | Some j \<Rightarrow> schema j)"

definition optional :: "(json \<Rightarrow> issue list + 'a) \<Rightarrow> json option \<Rightarrow> issue list + 'a option" where
  "optional schema v =
     (case v of
        None \<Rightarrow> Inr None
      | Some j \<Rightarrow> (case schema j of Inl e \<Rightarrow> Inl e | Inr x \<Rightarrow> Inr (Some x)))"

text \<open>
  \<open>.nullable().optional()\<close>, the schema of a nullable column: an omitted member and
  \<open>null\<close> both give no value, and both are stored as \<open>NULL\<close>.
\<close>

definition optionalNullable ::
  "(json \<Rightarrow> issue list + 'a) \<Rightarrow> json option \<Rightarrow> issue list + 'a option" where
  "optionalNullable schema v =
     (case v of
        None \<Rightarrow> Inr None
      | Some JNull \<Rightarrow> Inr None
      | Some j \<Rightarrow> (case schema j of Inl e \<Rightarrow> Inl e | Inr x \<Rightarrow> Inr (Some x)))"

fun issuesOf :: "issue list + 'a \<Rightarrow> issue list" where
  "issuesOf (Inl e) = e"
| "issuesOf (Inr _) = []"

definition notAnObject :: "issue list" where
  "notAnObject = [([], ''invalid_type'')]"

text \<open>\<open>insertUserSchema\<close>: the picked columns username, password, email, name, phone.\<close>

definition insertUserSchema :: "json \<Rightarrow> issue list + insertUser" where
  "insertUserSchema body =
     (case body of
        JObj obj \<Rightarrow>
          (let username = required ''username'' (zString ''username'' noChecks) (map_of obj ''username'');
               password = required ''password'' (zString ''password'' noChecks) (map_of obj ''password'');
               email = optionalNullable (zString ''email'' noChecks) (map_of obj ''email'');
               name = optionalNullable (zString ''name'' noChecks) (map_of obj ''name'');
               phone = optionalNullable (zString ''phone'' noChecks) (map_of obj ''phone'')
           in case (username, password, email, name, phone) of
                (Inr u, Inr p, Inr e, Inr n, Inr ph) \<Rightarrow>
                  Inr \<lparr> iu_username = u, iu_password = p, iu_email = e, iu_name = n, iu_phone = ph \<rparr>
              | _ \<Rightarrow>
                  Inl (issuesOf username @ issuesOf password @ issuesOf email @ issuesOf name
                       @ issuesOf phone))
      | _ \<Rightarrow> Inl notAnObject)"

record loginData =
  l_username :: string
  l_password :: string

definition loginSchema :: "json \<Rightarrow> issue list + loginData" where
  "loginSchema body =
     (case body of
        JObj obj \<Rightarrow>
          (let username = required ''username'' (zString ''username'' (minLength 1)) (map_of obj ''username'');
               password = required ''password'' (zString ''password'' (minLength 1)) (map_of obj ''password'')
           in case (username, password) of
                (Inr u, Inr p) \<Rightarrow> Inr \<lparr> l_username = u, l_password = p \<rparr>
              | _ \<Rightarrow> Inl (issuesOf username @ issuesOf password))
      | _ \<Rightarrow> Inl notAnObject)"

text \<open>The \<open>updateSchema\<close> of the profile handler: name, email and phone, each optional.\<close>

record profileUpdate =
  pu_name :: "string option"
  pu_email :: "string option"
  pu_phone :: "string option"

definition updateSchema :: "environment \<Rightarrow> json \<Rightarrow> issue list + profileUpdate" where
  "updateSchema env body =
     (case body of
        JObj obj \<Rightarrow>
          (let name = optional (zString ''name'' (minLength 2)) (map_of obj ''name'');
               email = optional (zString ''email'' (emailCheck env)) (map_of obj ''email'');
               phone = optional (zString ''phone'' noChecks) (map_of obj ''phone'')
           in case (name, email, phone) of
                (Inr n, Inr e, Inr ph) \<Rightarrow> Inr \<lparr> pu_name = n, pu_email = e, pu_phone = ph \<rparr>
              | _ \<Rightarrow> Inl (issuesOf name @ issuesOf email @ issuesOf phone))
      | _ \<Rightarrow> Inl notAnObject)"

text \<open>
  The object the properties handler builds from the query string, before validation: a
  numeric member holds whatever \<open>parseInt\<close> gave, which may be \<open>NaN\<close>.
\<close>

record rawFilter =
  rf_category :: "string option"
  rf_type :: "string option"
  rf_city :: "string option"
  rf_location :: "string option"
  rf_minPrice :: "jsnum option"
  rf_maxPrice :: "jsnum option"
  rf_bedrooms :: "jsnum option"
  rf_bathrooms :: "jsnum option"
  rf_minArea :: "jsnum option"
  rf_maxArea :: "jsnum option"
  rf_status :: "string option"
  rf_featured :: "bool option"

text \<open>\<open>z.number().optional()\<close> refuses \<open>NaN\<close> and lets every other number pass.\<close>

definition zNumber :: "string \<Rightarrow> jsnum option \<Rightarrow> issue list + jsnum option" where
  "zNumber k v =
     (case v of
        None \<Rightarrow> Inr None
      | Some NaN \<Rightarrow> Inl [(k, ''invalid_type'')]
      | Some n \<Rightarrow> Inr (Some n))"

definition propertyFilterSchema :: "rawFilter \<Rightarrow> issue list + propertyFilter" where
  "propertyFilterSchema raw =
     (let minPrice = zNumber ''minPrice'' (rf_minPrice raw);
          maxPrice = zNumber ''maxPrice'' (rf_maxPrice raw);
          bedrooms = zNumber ''bedrooms'' (rf_bedrooms raw);
          bathrooms = zNumber ''bathrooms'' (rf_bathrooms raw);
          minArea = zNumber ''minArea'' (rf_minArea raw);
          maxArea = zNumber ''maxArea'' (rf_maxArea raw)
      in case (minPrice, maxPrice, bedrooms, bathrooms, minArea, maxArea) of
           (Inr a, Inr b, Inr c, Inr d, Inr e, Inr g) \<Rightarrow>
             Inr \<lparr> f_category = rf_category raw, f_type = rf_type raw, f_city = rf_city raw,
                   f_location = rf_location raw, f_minPrice = a, f_maxPrice = b,
                   f_bedrooms = c, f_bathrooms = d, f_minArea = e, f_maxArea = g,
                   f_status = rf_status raw, f_featured = rf_featured raw \<rparr>
         | _ \<Rightarrow>
             Inl (issuesOf minPrice @ issuesOf maxPrice @ issuesOf bedrooms @ issuesOf bathrooms
                  @ issuesOf minArea @ issuesOf maxArea))"


section \<open>Authentication (server/index.ts)\<close>

text \<open>
  \<open>const { password, ...userWithoutPassword } = user\<close>: the object with every member of
  the row but the password.
\<close>

record userWithoutPassword =
  uw_id :: int
  uw_username :: string
  uw_email :: "string option"
  uw_name :: "string option"
  uw_phone :: "string option"
  uw_role :: string
  uw_profileImage :: "string option"
  uw_createdAt :: "timestamp option"

definition withoutPassword :: "user \<Rightarrow> userWithoutPassword" where
  "withoutPassword u =
     \<lparr> uw_id = u_id u, uw_username = u_username u, uw_email = u_email u, uw_name = u_name u,
       uw_phone = u_phone u, uw_role = u_role u, uw_profileImage = u_profileImage u,
       uw_createdAt = u_createdAt u \<rparr>"

text \<open>The members \<open>res.json\<close> writes for such an object, in the order of the columns.\<close>

definition jsonText :: "string option \<Rightarrow> json" where
  "jsonText v = (case v of None \<Rightarrow> JNull | Some s \<Rightarrow> JStr s)"

definition jsonMembers :: "userWithoutPassword \<Rightarrow> (string \<times> json) list" where
  "jsonMembers u =
     [(''id'', JNum (uw_id u)),
      (''username'', JStr (uw_username u)),
      (''email'', jsonText (uw_email u)),
      (''name'', jsonText (uw_name u)),
      (''phone'', jsonText (uw_phone u)),
      (''role'', JStr (uw_role u)),
      (''profileImage'', jsonText (uw_profileImage u)),
      (''createdAt'', (case uw_createdAt u of None \<Rightarrow> JNull | Some t \<Rightarrow> JNum t))]"

text \<open>
  The verify callback of the local strategy: \<open>done(null, false, {message})\<close> is
  \<open>Rejected\<close>, \<open>done(null, user)\<close> is \<open>Verified\<close>, and the \<open>done(err)\<close> of its
  \<open>catch\<close> is \<open>Failed\<close>.
\<close>

datatype verifyResult = Rejected string | Verified user | Failed dbError

definition verify :: "environment \<Rightarrow> database \<Rightarrow> string \<Rightarrow> string \<Rightarrow> verifyResult" where
  "verify env db username password =
     (case getUserByUsername db username of
        Inl err \<Rightarrow> Failed err
      | Inr None \<Rightarrow> Rejected ''Incorrect username.''
      | Inr (Some u) \<Rightarrow>
          (let isValid = bcryptCompare env password (u_password u)
           in if \<not> isValid then Rejected ''Incorrect password.'' else Verified u))"

definition serializeUser :: "user \<Rightarrow> int" where
  "serializeUser u = u_id u"

definition deserializeUser :: "database \<Rightarrow> int \<Rightarrow> string + userWithoutPassword" where
  "deserializeUser db i =
     (case getUser db i of
        None \<Rightarrow> Inl ''User not found''
      | Some u \<Rightarrow> Inr (withoutPassword u))"


section \<open>The API layer (server/routes.ts)\<close>

text \<open>
  A handler takes what it reads of the request (\<open>req.user\<close> as the session middleware
  left it, path parameters and query parameters as strings, the parsed body) and returns
  the status and body it answers with, together with the store after the request when it
  can change it. A query parameter is taken to occur at most once. \<open>req.user\<close> is
  \<open>None\<close> when the request carries no session, and the \<open>isAuthenticated\<close> middleware
  then answers 401 before the handler runs; otherwise it is what \<open>deserializeUser\<close> made
  of the session's user id. An exception under a handler's \<open>try\<close> is its 500 answer.
  \<open>ErrorMessage e\<close> is the body the error middleware of the server writes for an error
  passed to \<open>next\<close>: its only member is the message of the error.
\<close>

datatype body =
    Message string
  | MessageErrors string "issue list"
  | PropertiesBody "property list"
  | UserBody userWithoutPassword
  | MessageUser string userWithoutPassword
  | ErrorMessage dbError

type_synonym response = "nat \<times> body"

definition unauthorized :: response where
  "unauthorized = (401, Message ''Unauthorized, please log in'')"

text \<open>\<open>if (req.query.k)\<close>: a parameter counts when it is present and not empty.\<close>

definition truthy :: "string option \<Rightarrow> string option" where
  "truthy v = (case v of None \<Rightarrow> None | Some s \<Rightarrow> if s = [] then None else Some s)"

definition queryFilter :: "(string \<Rightarrow> string option) \<Rightarrow> rawFilter" where
  "queryFilter query =
     \<lparr> rf_category = truthy (query ''category''),
       rf_type = truthy (query ''type''),
       rf_city = truthy (query ''city''),
       rf_location = truthy (query ''location''),
       rf_minPrice = map_option parseInt (truthy (query ''minPrice'')),
       rf_maxPrice = map_option parseInt (truthy (query ''maxPrice'')),
       rf_bedrooms = map_option parseInt (truthy (query ''bedrooms'')),
       rf_bathrooms = None,
       rf_minArea = map_option parseInt (truthy (query ''minArea'')),
       rf_maxArea = map_option parseInt (truthy (query ''maxArea'')),
       rf_status = truthy (query ''status''),
       rf_featured = map_option (\<lambda>s. s = ''true'') (truthy (query ''featured'')) \<rparr>"

definition getPropertiesHandler :: "database \<Rightarrow> (string \<Rightarrow> string option) \<Rightarrow> response" where
  "getPropertiesHandler db query =
     (case propertyFilterSchema (queryFilter query) of
        Inl errors \<Rightarrow> (400, MessageErrors ''Invalid filter parameters'' errors)
      | Inr data \<Rightarrow>
          (case getProperties db (Some data) of
             Inl error \<Rightarrow> (500, Message ''Failed to fetch properties'')
           | Inr rows \<Rightarrow> (200, PropertiesBody rows)))"

definition registerHandler :: "environment \<Rightarrow> database \<Rightarrow> json \<Rightarrow> response \<times> database" where
  "registerHandler env db reqBody =
     (case insertUserSchema reqBody of
        Inl errors \<Rightarrow> ((400, MessageErrors ''Invalid user data'' errors), db)
      | Inr data \<Rightarrow>
          (case getUserByUsername db (iu_username data) of
             Inl error \<Rightarrow> ((500, Message ''Failed to register user''), db)
           | Inr (Some existingUser) \<Rightarrow> ((409, Message ''Username already exists''), db)
           | Inr None \<Rightarrow>
               (case createUser env db data of
                  Inl error \<Rightarrow> ((500, Message ''Failed to register user''), db)
                | Inr (u, db') \<Rightarrow> ((201, UserBody (withoutPassword u)), db'))))"

text \<open>
  The login handler also returns what \<open>req.logIn\<close> stores in the session: the id of the
  user, or nothing when the request does not log in. \<open>info.message || "Login failed"\<close>
  falls back when the message is empty. The session store is taken to accept the id. An
  error of the verify callback goes to
  \<open>next(err)\<close>, and the error middleware answers it with status 500 (the error of the
  database carries no status of its own) and the message of the error.
\<close>

definition loginHandler :: "environment \<Rightarrow> database \<Rightarrow> json \<Rightarrow> response \<times> int option" where
  "loginHandler env db reqBody =
     (case loginSchema reqBody of
        Inl errors \<Rightarrow> ((400, MessageErrors ''Invalid login data'' errors), None)
      | Inr data \<Rightarrow>
          (case verify env db (l_username data) (l_password data) of
             Failed err \<Rightarrow> ((500, ErrorMessage err), None)
           | Rejected message \<Rightarrow>
               ((401, Message (if message = [] then ''Login failed'' else message)), None)
           | Verified u \<Rightarrow>
               ((200, MessageUser ''Login successful'' (withoutPassword u)),
                Some (serializeUser u))))"

definition profileUpdates :: "profileUpdate \<Rightarrow> userUpdates" where
  "profileUpdates d =
     \<lparr> up_username = None,
       up_email = map_option Some (pu_email d),
       up_name = map_option Some (pu_name d),
       up_phone = map_option Some (pu_phone d),
       up_role = None,
       up_profileImage = None,
       up_createdAt = None \<rparr>"

definition patchUserHandler ::
  "environment \<Rightarrow> database \<Rightarrow> userWithoutPassword option \<Rightarrow> string \<Rightarrow> json \<Rightarrow> response \<times> database" where
  "patchUserHandler env db reqUser idParam reqBody =
     (case reqUser of
        None \<Rightarrow> (unauthorized, db)
      | Some sessionUser \<Rightarrow>
          (let forbidden = ((403, Message ''You can only update your own profile''), db)
           in case parseInt idParam of
                Num userId \<Rightarrow>
                  if uw_id sessionUser \<noteq> userId then forbidden
                  else
                    (case updateSchema env reqBody of
                       Inl errors \<Rightarrow> ((400, MessageErrors ''Invalid profile data'' errors), db)
                     | Inr data \<Rightarrow>
                         (case getUser db userId of
                            None \<Rightarrow> ((404, Message ''User not found''), db)
                          | Some u \<Rightarrow>
                              (case updateUser env db userId (profileUpdates data) of
                                 (None, db') \<Rightarrow> ((500, Message ''Failed to update user''), db')
                               | (Some updatedUser, db') \<Rightarrow>
                                   ((200, MessageUser ''Profile updated successfully''
                                            (withoutPassword updatedUser)), db'))))
              | _ \<Rightarrow> forbidden))"

definition deleteSavedPropertyHandler ::
  "database \<Rightarrow> userWithoutPassword option \<Rightarrow> string \<Rightarrow> response \<times> database" where
  "deleteSavedPropertyHandler db reqUser propertyIdParam =
     (case reqUser of
        None \<Rightarrow> (unauthorized, db)
      | Some sessionUser \<Rightarrow>
          (let userId = uw_id sessionUser;
               propertyId = parseInt propertyIdParam
           in if isNaN propertyId then ((400, Message ''Invalid property ID''), db)
              else
                (case unsaveProperty db userId propertyId of
                   Inl error \<Rightarrow> ((500, Message ''Failed to remove saved property''), db)
                 | Inr db' \<Rightarrow>
                     ((200, Message ''Property removed from saved list successfully''), db'))))"


section \<open>What the specification says\<close>

text \<open>
  The filter semantics in the specification's words: each present member contributes one
  condition (equality for category, type, city, location, status and featured; an
  inclusive lower bound for minPrice, bedrooms, bathrooms and minArea; an inclusive upper
  bound for maxPrice and maxArea), and the conditions are combined with AND. A property
  whose column is \<open>NULL\<close> does not satisfy a condition on that column. A bound is any
  number: \<open>atLeastNum v x\<close> says that the column value \<open>x\<close> is at least the bound \<open>v\<close>, and
  \<open>atMostNum v x\<close> that it is at most \<open>v\<close>; nothing compares with \<open>NaN\<close>.
\<close>

definition present :: "('a \<Rightarrow> bool) \<Rightarrow> 'a option \<Rightarrow> bool" where
  "present cond v = (case v of None \<Rightarrow> True | Some x \<Rightarrow> cond x)"

definition holds :: "('a \<Rightarrow> bool) \<Rightarrow> 'a option \<Rightarrow> bool" where
  "holds cond v = (case v of None \<Rightarrow> False | Some x \<Rightarrow> cond x)"

fun atLeastNum :: "jsnum \<Rightarrow> int \<Rightarrow> bool" where
  "atLeastNum NaN x = False"
| "atLeastNum (Num n) x = (n \<le> x)"
| "atLeastNum (Fraction q) x = (q \<le> of_int x)"
| "atLeastNum (Infinity positive) x = (\<not> positive)"

fun atMostNum :: "jsnum \<Rightarrow> int \<Rightarrow> bool" where
  "atMostNum NaN x = False"
| "atMostNum (Num n) x = (x \<le> n)"
| "atMostNum (Fraction q) x = (of_int x \<le> q)"
| "atMostNum (Infinity positive) x = positive"

definition specMatches :: "propertyFilter \<Rightarrow> property \<Rightarrow> bool" where
  "specMatches f p =
     (present (\<lambda>v. p_category p = v) (f_category f)
      \<and> present (\<lambda>v. p_type p = v) (f_type f)
      \<and> present (\<lambda>v. p_city p = v) (f_city f)
      \<and> present (\<lambda>v. p_location p = v) (f_location f)
      \<and> present (\<lambda>v. atLeastNum v (p_price p)) (f_minPrice f)
      \<and> present (\<lambda>v. atMostNum v (p_price p)) (f_maxPrice f)
      \<and> present (\<lambda>v. holds (atLeastNum v) (p_bedrooms p)) (f_bedrooms f)
      \<and> present (\<lambda>v. holds (atLeastNum v) (p_bathrooms p)) (f_bathrooms f)
      \<and> present (\<lambda>v. holds (atLeastNum v) (p_area p)) (f_minArea f)
      \<and> present (\<lambda>v. holds (atMostNum v) (p_area p)) (f_maxArea f)
      \<and> present (\<lambda>v. p_status p = v) (f_status f)
      \<and> present (\<lambda>v. holds (\<lambda>x. x = v) (p_featured p)) (f_featured f))"

text \<open>
  The same with the one change the code makes: a text member that is the empty string
  counts as absent.
\<close>

definition nonEmpty :: "string option \<Rightarrow> string option" where
  "nonEmpty v = (case v of None \<Rightarrow> None | Some s \<Rightarrow> if s = [] then None else Some s)"

definition normalised :: "propertyFilter \<Rightarrow> propertyFilter" where
  "normalised f =
     f\<lparr> f_category := nonEmpty (f_category f),
        f_type := nonEmpty (f_type f),
        f_city := nonEmpty (f_city f),
        f_location := nonEmpty (f_location f),
        f_status := nonEmpty (f_status f) \<rparr>"

definition noFilter :: propertyFilter where
  "noFilter =
     \<lparr> f_category = None, f_type = None, f_city = None, f_location = None,
       f_minPrice = None, f_maxPrice = None, f_bedrooms = None, f_bathrooms = None,
       f_minArea = None, f_maxArea = None, f_status = None, f_featured = None \<rparr>"

text \<open>
  The values the database accepts: a number for an integer column is an integer of 32
  bits, and a text has no character U+0000. A filter is accepted when each of its members
  that contributes a condition is.
\<close>

definition acceptedNumber :: "jsnum \<Rightarrow> bool" where
  "acceptedNumber v =
     (case v of Num n \<Rightarrow> - 2147483648 \<le> n \<and> n \<le> 2147483647 | _ \<Rightarrow> False)"

definition filterAccepted :: "propertyFilter \<Rightarrow> bool" where
  "filterAccepted f =
     (present textOk (nonEmpty (f_category f))
      \<and> present textOk (nonEmpty (f_type f))
      \<and> present textOk (nonEmpty (f_city f))
      \<and> present textOk (nonEmpty (f_location f))
      \<and> present acceptedNumber (f_minPrice f)
      \<and> present acceptedNumber (f_maxPrice f)
      \<and> present acceptedNumber (f_bedrooms f)
      \<and> present acceptedNumber (f_bathrooms f)
      \<and> present acceptedNumber (f_minArea f)
      \<and> present acceptedNumber (f_maxArea f)
      \<and> present textOk (nonEmpty (f_status f)))"

text \<open>The conditions of an accepted filter, with their parameters bound.\<close>

definition textList :: "string option \<Rightarrow> string list" where
  "textList v = (case nonEmpty v of None \<Rightarrow> [] | Some s \<Rightarrow> [s])"

definition intList :: "jsnum option \<Rightarrow> int list" where
  "intList v = (case v of Some (Num n) \<Rightarrow> [n] | _ \<Rightarrow> [])"

definition boolList :: "bool option \<Rightarrow> bool list" where
  "boolList v = (case v of None \<Rightarrow> [] | Some b \<Rightarrow> [b])"

definition boundConditions :: "propertyFilter \<Rightarrow> condition list" where
  "boundConditions f =
     map (EqText ColCategory) (textList (f_category f))
     @ map (EqText ColType) (textList (f_type f))
     @ map (EqText ColCity) (textList (f_city f))
     @ map (EqText ColLocation) (textList (f_location f))
     @ map (Gte ColPrice) (intList (f_minPrice f))
     @ map (Lte ColPrice) (intList (f_maxPrice f))
     @ map (Gte ColBedrooms) (intList (f_bedrooms f))
     @ map (Gte ColBathrooms) (intList (f_bathrooms f))
     @ map (Gte ColArea) (intList (f_minArea f))
     @ map (Lte ColArea) (intList (f_maxArea f))
     @ map (EqText ColStatus) (textList (f_status f))
     @ map (EqBool ColFeatured) (boolList (f_featured f))"

text \<open>
  The uniqueness the specification wants of saved properties: no two stored rows name the
  same user and property.
\<close>

definition pairsDistinct :: "database \<Rightarrow> bool" where
  "pairsDistinct db = distinct (map (\<lambda>s. (s_userId s, s_propertyId s)) (savedProperties db))"

text \<open>
  A username is taken when a stored user has it. An e-mail address is taken when a
  stored user has it; \<open>NULL\<close> is never taken. The data of a registration can be stored
  when the database accepts the hash of the password and the e-mail address, name and
  phone that are given, and the username and the e-mail address fit the index of their
  column.
\<close>

definition usernameTaken :: "database \<Rightarrow> string \<Rightarrow> bool" where
  "usernameTaken db n = list_ex (\<lambda>v. u_username v = n) (users db)"

definition emailTaken :: "database \<Rightarrow> string option \<Rightarrow> bool" where
  "emailTaken db e =
     (case e of None \<Rightarrow> False | Some a \<Rightarrow> list_ex (\<lambda>v. u_email v = Some a) (users db))"

definition storable :: "environment \<Rightarrow> insertUser \<Rightarrow> bool" where
  "storable env d =
     (textOk (bcryptHash env (iu_password d)) \<and> present textOk (iu_email d)
      \<and> present textOk (iu_name d) \<and> present textOk (iu_phone d)
      \<and> fitsIndex env (iu_username d) \<and> present (fitsIndex env) (iu_email d))"

text \<open>
  The invariant the specification gives for properties: the image list is not empty and
  the price is not negative, for every stored property. A property to insert is accepted
  by the database when its price and the other integer members that are given are
  integers of 32 bits and none of its texts has a character U+0000.
\<close>

definition propertyInvariant :: "database \<Rightarrow> bool" where
  "propertyInvariant db = list_all (\<lambda>p. p_images p \<noteq> [] \<and> 0 \<le> p_price p) (properties db)"

definition propertyAccepted :: "insertProperty \<Rightarrow> bool" where
  "propertyAccepted ip =
     (acceptedNumber (ip_price ip)
      \<and> present acceptedNumber (ip_bedrooms ip)
      \<and> present acceptedNumber (ip_bathrooms ip)
      \<and> present acceptedNumber (ip_area ip)
      \<and> present acceptedNumber (ip_builderId ip)
      \<and> present acceptedNumber (ip_agentId ip)
      \<and> list_all textOk (propertyTexts ip))"

text \<open>The rows a query returns: none when it raises.\<close>

definition rowsOf :: "dbError + 'r list \<Rightarrow> 'r list" where
  "rowsOf r = (case r of Inl e \<Rightarrow> [] | Inr rows \<Rightarrow> rows)"

definition rowOf :: "dbError + 'r option \<Rightarrow> 'r list" where
  "rowOf r = (case r of Inr (Some row) \<Rightarrow> [row] | _ \<Rightarrow> [])"

text \<open>
  The columns of a user that a profile update must leave alone, and the view of the users
  table in which the user with a given id is blanked out: what it shows must not change
  at all.
\<close>

definition immutableColumns ::
  "user \<Rightarrow> int \<times> string \<times> string \<times> string \<times> string option \<times> timestamp option" where
  "immutableColumns u =
     (u_id u, u_username u, u_password u, u_role u, u_profileImage u, u_createdAt u)"

definition otherThan :: "int \<Rightarrow> user \<Rightarrow> user option" where
  "otherThan i u = (if u_id u = i then None else Some u)"


section \<open>Example data\<close>

definition exampleEnv :: environment where
  "exampleEnv =
     \<lparr> now = 1000,
       bcryptHash = (\<lambda>p. ''$2a$10$'' @ p),
       bcryptCompare = (\<lambda>p h. h = ''$2a$10$'' @ p),
       isEmail = (\<lambda>s. CHR ''@'' \<in> set s),
       fitsIndex = (\<lambda>s. length s \<le> 2000) \<rparr>"

definition exampleProperty :: property where
  "exampleProperty =
     \<lparr> p_id = 1, p_title = ''Sea view flat'', p_description = ''Two bedrooms'',
       p_address = ''12 Marine Drive'', p_city = ''Mumbai'', p_location = ''Colaba'',
       p_type = ''apartment'', p_category = ''buy'', p_price = 1000000,
       p_priceUnit = ''INR'', p_displayPrice = None, p_bedrooms = Some 2,
       p_bathrooms = Some 1, p_area = Some 900, p_amenities = None, p_features = None,
       p_images = [''flat.jpg''], p_latitude = None, p_longitude = None,
       p_builderId = None, p_status = ''available'', p_featured = Some False,
       p_isNewLaunch = Some False, p_isExclusive = Some False,
       p_isReadyToMove = Some False, p_agentId = None \<rparr>"

definition emptyDb :: database where
  "emptyDb =
     \<lparr> users = [], properties = [], enquiries = [], savedProperties = [],
       users_seq = 0, properties_seq = 0, enquiries_seq = 0, savedProperties_seq = 0 \<rparr>"

definition exampleDb :: database where
  "exampleDb = emptyDb\<lparr> properties := [exampleProperty], properties_seq := 1 \<rparr>"

definition emptyCategory :: propertyFilter where
  "emptyCategory = noFilter\<lparr> f_category := Some [] \<rparr>"

definition mumbaiFilter :: propertyFilter where
  "mumbaiFilter =
     noFilter\<lparr> f_category := Some ''buy'', f_city := Some ''Mumbai'',
               f_minPrice := Some (Num 1000000) \<rparr>"

definition hugePriceFilter :: propertyFilter where
  "hugePriceFilter = noFilter\<lparr> f_minPrice := Some (Num 2147483648) \<rparr>"

definition bathroomsQuery :: "string \<Rightarrow> string option" where
  "bathroomsQuery = [''bathrooms'' \<mapsto> ''3'']"


definition alice :: user where
  "alice =
     \<lparr> u_id = 1, u_username = ''alice'', u_password = ''$2a$10$secret1'',
       u_email = Some ''alice@example.com'', u_name = Some ''Alice'', u_phone = None,
       u_role = ''user'', u_profileImage = None, u_createdAt = Some 10 \<rparr>"

definition admin :: user where
  "admin =
     \<lparr> u_id = 2, u_username = ''admin'', u_password = ''$2a$10$admin123'',
       u_email = None, u_name = None, u_phone = None,
       u_role = ''admin'', u_profileImage = None, u_createdAt = Some 20 \<rparr>"

definition usersDb :: database where
  "usersDb = emptyDb\<lparr> users := [alice, admin], users_seq := 2 \<rparr>"

text \<open>A username with the character U+0000 in it.\<close>

definition nulName :: string where
  "nulName = [CHR ''a'', CHR 0x00, CHR ''b'']"

definition registerBody :: "string \<Rightarrow> string \<Rightarrow> string \<Rightarrow> json" where
  "registerBody username password email =
     JObj [(''username'', JStr username), (''password'', JStr password),
           (''email'', JStr email)]"

definition loginBody :: "string \<Rightarrow> string \<Rightarrow> json" where
  "loginBody username password = JObj [(''username'', JStr username), (''password'', JStr password)]"

definition goodProperty :: insertProperty where
  "goodProperty =
     \<lparr> ip_title = ''Plot'', ip_description = ''Empty plot'', ip_address = ''Unknown'',
       ip_city = ''Pune'', ip_location = ''Baner'', ip_type = ''plot'', ip_category = ''buy'',
       ip_price = Num 500000, ip_priceUnit = None, ip_displayPrice = None,
       ip_bedrooms = None, ip_bathrooms = None, ip_area = None, ip_amenities = None,
       ip_features = None, ip_images = [''plot.jpg''], ip_latitude = None,
       ip_longitude = None, ip_builderId = None, ip_status = None, ip_featured = None,
       ip_isNewLaunch = None, ip_isExclusive = None, ip_isReadyToMove = None,
       ip_agentId = None \<rparr>"

definition badProperty :: insertProperty where
  "badProperty = goodProperty\<lparr> ip_price := Num (- 1), ip_images := [] \<rparr>"

definition hugeProperty :: insertProperty where
  "hugeProperty = goodProperty\<lparr> ip_price := Num 2147483648 \<rparr>"

definition badRow :: property where
  "badRow =
     \<lparr> p_id = 1, p_title = ''Plot'', p_description = ''Empty plot'',
       p_address = ''Unknown'', p_city = ''Pune'', p_location = ''Baner'',
       p_type = ''plot'', p_category = ''buy'', p_price = - 1,
       p_priceUnit = [CHR 0xE2, CHR 0x82, CHR 0xB9], p_displayPrice = None,
       p_bedrooms = None, p_bathrooms = None, p_area = None, p_amenities = None,
       p_features = None, p_images = [], p_latitude = None, p_longitude = None,
       p_builderId = None, p_status = ''available'', p_featured = Some False,
       p_isNewLaunch = Some False, p_isExclusive = Some False,
       p_isReadyToMove = Some False, p_agentId = None \<rparr>"

definition profileBody :: json where
  "profileBody =
     JObj [(''name'', JStr ''Alicia''), (''role'', JStr ''admin''), (''password'', JStr ''x'')]"


section \<open>Evaluation\<close>

text \<open>The definitions to unfold when a validator, the examples or \<open>parseInt\<close> are evaluated.\<close>

lemmas zod_defs = required_def optional_def optionalNullable_def zString_def noChecks_def
  minLength_def emailCheck_def notAnObject_def

lemmas example_users = usersDb_def emptyDb_def alice_def admin_def exampleEnv_def

lemmas parseInt_defs = parseInt_def isWhiteSpace_def radixDigit_def digitValue_def digitsValue_def


section \<open>Filtering properties\<close>

lemma sqlAnd_True: "sqlAnd a b = Some True \<longleftrightarrow> a = Some True \<and> b = Some True"
  by (cases "(a, b)" rule: sqlAnd.cases) auto

lemma andConditions_Nil: "andConditions [] p = Some True"
  by (simp add: andConditions_def)

lemma andConditions_Cons:
  "andConditions (c # cs) p = Some True \<longleftrightarrow>
     evalCondition c p = Some True \<and> andConditions cs p = Some True"
  by (simp add: andConditions_def sqlAnd_True)

lemma andConditions_append:
  "andConditions (cs @ ds) p = Some True \<longleftrightarrow>
     andConditions cs p = Some True \<and> andConditions ds p = Some True"
  by (induction cs) (auto simp: andConditions_Nil andConditions_Cons)

lemma textList_True:
  "andConditions (map (EqText c) (textList v)) p = Some True \<longleftrightarrow>
     present (\<lambda>s. textValue c p = s) (nonEmpty v)"
  by (auto simp: textList_def present_def andConditions_Nil andConditions_Cons
      split: option.splits)

lemma intList_Gte:
  "present acceptedNumber v \<Longrightarrow>
   andConditions (map (Gte c) (intList v)) p = Some True \<longleftrightarrow>
     present (\<lambda>n. holds (atLeastNum n) (intValue c p)) v"
  by (auto simp: intList_def present_def holds_def acceptedNumber_def andConditions_Nil
      andConditions_Cons split: option.splits jsnum.splits)

lemma intList_Lte:
  "present acceptedNumber v \<Longrightarrow>
   andConditions (map (Lte c) (intList v)) p = Some True \<longleftrightarrow>
     present (\<lambda>n. holds (atMostNum n) (intValue c p)) v"
  by (auto simp: intList_def present_def holds_def acceptedNumber_def andConditions_Nil
      andConditions_Cons split: option.splits jsnum.splits)

lemma boolList_EqBool:
  "andConditions (map (EqBool c) (boolList v)) p = Some True \<longleftrightarrow>
     present (\<lambda>b. holds (\<lambda>x. x = b) (boolValue c p)) v"
  by (auto simp: boolList_def present_def holds_def andConditions_Nil andConditions_Cons
      split: option.splits)

lemma holds_Some: "holds c (Some x) = c x"
  by (simp add: holds_def)

lemma boundConditions_matches:
  assumes "filterAccepted f"
  shows "andConditions (boundConditions f) p = Some True \<longleftrightarrow> specMatches (normalised f) p"
  using assms
  by (simp add: filterAccepted_def boundConditions_def andConditions_append textList_True
      intList_Gte intList_Lte boolList_EqBool specMatches_def normalised_def holds_Some)

lemma allBound_map_Inr: "allBound (map Inr bs) = Inr bs"
  by (induction bs) simp_all

lemma allBound_rejected:
  "Inl DataException \<in> set cs \<Longrightarrow> (\<And>e. Inl e \<in> set cs \<Longrightarrow> e = DataException)
   \<Longrightarrow> allBound cs = Inl DataException"
proof (induction cs)
  case Nil
  then show ?case by simp
next
  case (Cons c cs)
  show ?case
  proof (cases c)
    case (Inl e)
    with Cons.prems(2) [of e] show ?thesis by simp
  next
    case (Inr b)
    with Cons have "allBound cs = Inl DataException" by auto
    with Inr show ?thesis by simp
  qed
qed

lemma truthyText_accepted:
  "present textOk (nonEmpty v) \<Longrightarrow> truthyText mk v = map Inr (map mk (textList v))"
  by (auto simp: truthyText_def textList_def present_def nonEmpty_def bound_def textParam_def
      split: option.splits)

lemma acceptedNumber_intParam: "acceptedNumber n \<longleftrightarrow> (\<exists>k. intParam n = Inr k)"
  by (auto simp: acceptedNumber_def intParam_def int4_def split: jsnum.splits)

lemma definedNumber_accepted:
  "present acceptedNumber v \<Longrightarrow> definedNumber mk v = map Inr (map mk (intList v))"
  by (auto simp: definedNumber_def intList_def present_def acceptedNumber_def bound_def
      intParam_def int4_def split: option.splits jsnum.splits)

lemma defined_bound: "defined mk v = map Inr (map mk (boolList v))"
  by (simp add: defined_def boolList_def split: option.splits)

lemma queryConditions_accepted:
  "filterAccepted f \<Longrightarrow> queryConditions (Some f) = map Inr (boundConditions f)"
  by (simp add: filterAccepted_def queryConditions_def boundConditions_def truthyText_accepted
      definedNumber_accepted defined_bound)

lemma truthyText_errors: "Inl e \<in> set (truthyText mk v) \<Longrightarrow> e = DataException"
  by (auto simp: truthyText_def bound_def textParam_def split: option.splits if_splits)

lemma intParam_errors: "intParam n = Inl e \<Longrightarrow> e = DataException"
  by (cases n) (auto simp: intParam_def split: if_splits)

lemma definedNumber_errors: "Inl e \<in> set (definedNumber mk v) \<Longrightarrow> e = DataException"
  by (cases v) (auto simp: definedNumber_def bound_def split: sum.splits dest: intParam_errors)

lemma defined_errors: "Inl e \<notin> set (defined mk v)"
  by (auto simp: defined_def split: option.splits)

lemma queryConditions_errors:
  "Inl e \<in> set (queryConditions (Some f)) \<Longrightarrow> e = DataException"
  by (auto simp: queryConditions_def defined_errors
      dest: truthyText_errors definedNumber_errors)

lemma truthyText_rejected:
  "\<not> present textOk (nonEmpty v) \<Longrightarrow> Inl DataException \<in> set (truthyText mk v)"
  by (auto simp: truthyText_def present_def nonEmpty_def bound_def textParam_def
      split: option.splits if_splits)

lemma definedNumber_rejected:
  "\<not> present acceptedNumber v \<Longrightarrow> Inl DataException \<in> set (definedNumber mk v)"
  by (auto simp: definedNumber_def present_def acceptedNumber_def bound_def intParam_def int4_def
      split: option.splits jsnum.splits)

lemma queryConditions_rejected:
  "\<not> filterAccepted f \<Longrightarrow> Inl DataException \<in> set (queryConditions (Some f))"
  unfolding filterAccepted_def de_Morgan_conj
  by (elim disjE) (simp_all add: queryConditions_def truthyText_rejected definedNumber_rejected)

text \<open>
  C1, as the specification states it, fails: a filter whose category is present but
  empty contributes no condition, so a listing of category \<open>buy\<close> is returned although it
  does not satisfy \<open>category = ""\<close>.
\<close>

theorem getProperties_empty_text_counterexample:
  "getProperties exampleDb (Some emptyCategory) = Inr [exampleProperty]
   \<and> \<not> specMatches emptyCategory exampleProperty"
  by (simp add: getProperties_def queryConditions_def emptyCategory_def noFilter_def
      truthyText_def definedNumber_def defined_def exampleDb_def emptyDb_def specMatches_def
      present_def exampleProperty_def)

text \<open>
  C1, amended: for every filter that the database accepts (each text member that is not
  empty has no character U+0000, each numeric member that is present is an integer of 32
  bits), \<open>getProperties\<close> returns exactly the properties, in storage order, that satisfy
  the conjunction of the per-field conditions of the members that are present, a text
  member (category, type, city, location, status) counting as present only when it is not
  the empty string: equality for category, type, city, location, status and featured,
  inclusive lower bounds for minPrice, bedrooms, bathrooms and minArea, inclusive upper
  bounds for maxPrice and maxArea. For every other filter the database rejects a
  parameter and \<open>getProperties\<close> raises. With no filter, or a filter with no member, it
  returns all properties.
\<close>

theorem getProperties_conjunction:
  "(filterAccepted f \<longrightarrow>
      getProperties db (Some f) = Inr (filter (specMatches (normalised f)) (properties db)))
   \<and> (\<not> filterAccepted f \<longrightarrow> getProperties db (Some f) = Inl DataException)
   \<and> getProperties db None = Inr (properties db)
   \<and> getProperties db (Some noFilter) = Inr (properties db)"
proof (intro conjI impI)
  assume acc: "filterAccepted f"
  show "getProperties db (Some f) = Inr (filter (specMatches (normalised f)) (properties db))"
  proof (cases "boundConditions f = []")
    case True
    then have "\<And>p. specMatches (normalised f) p"
      using boundConditions_matches [OF acc] by (simp add: andConditions_Nil)
    with True acc show ?thesis
      by (simp add: getProperties_def queryConditions_accepted)
  next
    case False
    with acc show ?thesis
      by (simp add: getProperties_def queryConditions_accepted allBound_map_Inr
          selectWhere_def boundConditions_matches)
  qed
next
  assume rej: "\<not> filterAccepted f"
  then have m: "Inl DataException \<in> set (queryConditions (Some f))"
    by (rule queryConditions_rejected)
  then have "allBound (queryConditions (Some f)) = Inl DataException"
    by (rule allBound_rejected) (rule queryConditions_errors)
  moreover from m have "queryConditions (Some f) \<noteq> []" by auto
  ultimately show "getProperties db (Some f) = Inl DataException"
    by (simp add: getProperties_def)
next
  show "getProperties db None = Inr (properties db)"
    by (simp add: getProperties_def queryConditions_def)
  show "getProperties db (Some noFilter) = Inr (properties db)"
    by (simp add: getProperties_def queryConditions_def noFilter_def truthyText_def
        definedNumber_def defined_def)
qed

theorem getProperties_conjunction_witness:
  "filterAccepted mumbaiFilter
   \<and> getProperties exampleDb (Some mumbaiFilter) = Inr [exampleProperty]
   \<and> \<not> filterAccepted hugePriceFilter
   \<and> getProperties exampleDb (Some hugePriceFilter) = Inl DataException"
proof -
  have a: "filterAccepted mumbaiFilter"
    by (simp add: filterAccepted_def mumbaiFilter_def noFilter_def present_def nonEmpty_def
        textOk_def acceptedNumber_def)
  have r: "\<not> filterAccepted hugePriceFilter"
    by (simp add: filterAccepted_def hugePriceFilter_def noFilter_def present_def nonEmpty_def
        textOk_def acceptedNumber_def)
  have m: "filter (specMatches (normalised mumbaiFilter)) (properties exampleDb) = [exampleProperty]"
    by (simp add: specMatches_def normalised_def mumbaiFilter_def noFilter_def present_def
        nonEmpty_def exampleDb_def emptyDb_def exampleProperty_def)
  from getProperties_conjunction [of mumbaiFilter exampleDb] a m
  have 1: "getProperties exampleDb (Some mumbaiFilter) = Inr [exampleProperty]" by simp
  from getProperties_conjunction [of hugePriceFilter exampleDb] r
  have 2: "getProperties exampleDb (Some hugePriceFilter) = Inl DataException" by simp
  from a r 1 2 show ?thesis by simp
qed

text \<open>
  The handler of \<open>GET /api/properties\<close> never reads the \<open>bathrooms\<close> parameter: the
  filter it builds, and so its answer, is the same whatever the parameter holds.
\<close>

lemma queryFilter_ignores_bathrooms: "queryFilter (query(''bathrooms'' := v)) = queryFilter query"
  by (simp add: queryFilter_def)

lemma getPropertiesHandler_ignores_bathrooms:
  "getPropertiesHandler db (query(''bathrooms'' := v)) = getPropertiesHandler db query"
  by (simp add: getPropertiesHandler_def queryFilter_ignores_bathrooms)

text \<open>
  C2 says that a request with \<open>bathrooms=n\<close> is answered with properties of at least \<open>n\<close>
  bathrooms only. The code at \<open>GET /api/properties?bathrooms=3\<close>, on a store holding one
  listing with a single bathroom, answers 200 with that listing.
\<close>

theorem getPropertiesHandler_bathrooms_unfiltered:
  "getPropertiesHandler exampleDb bathroomsQuery = (200, PropertiesBody [exampleProperty])
   \<and> p_bathrooms exampleProperty = Some 1"
  by (simp add: getPropertiesHandler_def bathroomsQuery_def queryFilter_def truthy_def
      propertyFilterSchema_def zNumber_def getProperties_def queryConditions_def
      truthyText_def definedNumber_def defined_def exampleDb_def emptyDb_def exampleProperty_def)


section \<open>Saved properties\<close>





text \<open>
  The states a sequential run reaches never hold a pair twice: the empty store has none,
  and \<open>saveProperty\<close> and \<open>unsaveProperty\<close> keep the pairs distinct. So the hypothesis of
  the next theorem holds in every such state.
\<close>

lemma distinct_filter_le1:
  "distinct (map f xs) \<Longrightarrow> length (filter (\<lambda>x. f x = k) xs) \<le> 1"
  by (induction xs) (auto simp: filter_empty_conv image_iff)

lemma pairsDistinct_count:
  "pairsDistinct db \<Longrightarrow> length (filter (savedPair u p) (savedProperties db)) \<le> 1"
proof -
  have "savedPair u p = (\<lambda>s. (s_userId s, s_propertyId s) = (u, p))"
    by (simp add: savedPair_def fun_eq_iff)
  then show "pairsDistinct db \<Longrightarrow> ?thesis"
    by (simp only: pairsDistinct_def distinct_filter_le1)
qed

lemma pairsDistinct_emptyDb: "pairsDistinct emptyDb"
  by (simp add: pairsDistinct_def emptyDb_def)

lemma pairsDistinct_saveProperty:
  "pairsDistinct db \<Longrightarrow> pairsDistinct (snd (saveProperty env db sp))"
  by (auto simp: pairsDistinct_def saveProperty_def Let_def savedPair_def filter_empty_conv
      split: list.splits)

lemma pairsDistinct_unsaveProperty:
  "unsaveProperty db u p = Inr db' \<Longrightarrow> pairsDistinct db \<Longrightarrow> pairsDistinct db'"
  by (auto simp: pairsDistinct_def unsaveProperty_def distinct_map_filter
      split: sum.splits)




section \<open>Unsaving\<close>

lemma parseInt_cases: "parseInt s = NaN \<or> (\<exists>n. parseInt s = Num n)"
  by (simp add: parseInt_def Let_def)

lemma unsaveProperty_accepted:
  "int4 u \<Longrightarrow> int4 n \<Longrightarrow>
   unsaveProperty db u (Num n)
     = Inr (db\<lparr> savedProperties := filter (\<lambda>s. \<not> savedPair u n s) (savedProperties db) \<rparr>)"
  by (simp add: unsaveProperty_def intParam_def)

lemma unsaveProperty_rejected:
  "\<not> int4 n \<Longrightarrow> unsaveProperty db u (Num n) = Inl DataException"
  by (simp add: unsaveProperty_def intParam_def split: sum.splits)

lemma unsave_absent:
  "\<not> isPropertySaved db u n
   \<Longrightarrow> db\<lparr> savedProperties := filter (\<lambda>s. \<not> savedPair u n s) (savedProperties db) \<rparr> = db"
  by (simp add: isPropertySaved_def filter_empty_conv filter_id_conv)

lemma unsave_removes:
  "\<not> isPropertySaved
       (db\<lparr> savedProperties := filter (\<lambda>s. \<not> savedPair u n s) (savedProperties db) \<rparr>) u n"
  by (simp add: isPropertySaved_def)

text \<open>
  C10, as stated, fails: \<open>DELETE /saved-properties/2147483648\<close> has a numeric parameter,
  but the number is not an integer of 32 bits, the \<open>DELETE\<close> statement raises, and the
  handler's \<open>catch\<close> answers 500.
\<close>

theorem unsave_out_of_range_counterexample:
  "\<not> isNaN (parseInt ''2147483648'')
   \<and> deleteSavedPropertyHandler exampleDb (Some (withoutPassword alice)) ''2147483648''
       = ((500, Message ''Failed to remove saved property''), exampleDb)"
proof -
  have p: "parseInt ''2147483648'' = Num 2147483648" by (simp add: parseInt_defs)
  have "\<not> int4 2147483648" by (simp add: int4_def)
  then have "unsaveProperty exampleDb (uw_id (withoutPassword alice)) (Num 2147483648)
      = Inl DataException"
    by (rule unsaveProperty_rejected)
  with p show ?thesis
    by (simp add: deleteSavedPropertyHandler_def Let_def isNaN_def)
qed

text \<open>
  C10, amended: for every authenticated \<open>DELETE /saved-properties/:propertyId\<close> whose
  parameter is numeric (\<open>parseInt\<close> does not give \<open>NaN\<close>), the session user's id being
  the id of a stored user (an integer of 32 bits): when the number is an integer of 32
  bits, the answer is 200 with the success message, never 404, also when no row of the
  pair exists; the store afterwards is the store without the rows of the pair, in which
  the pair is not saved, and it is the store as it was when the pair was not saved before.
  When the number is outside that range, the answer is 500 and the store is unchanged.
\<close>

theorem unsave_total:
  assumes "int4 (uw_id sessionUser)" and "\<not> isNaN (parseInt propertyIdParam)"
  shows "\<exists>n. parseInt propertyIdParam = Num n
    \<and> (int4 n \<longrightarrow>
          deleteSavedPropertyHandler db (Some sessionUser) propertyIdParam
            = ((200, Message ''Property removed from saved list successfully''),
               db\<lparr> savedProperties :=
                     filter (\<lambda>s. \<not> savedPair (uw_id sessionUser) n s) (savedProperties db) \<rparr>)
          \<and> \<not> isPropertySaved
                 (snd (deleteSavedPropertyHandler db (Some sessionUser) propertyIdParam))
                 (uw_id sessionUser) n
          \<and> (\<not> isPropertySaved db (uw_id sessionUser) n \<longrightarrow>
                snd (deleteSavedPropertyHandler db (Some sessionUser) propertyIdParam) = db))
    \<and> (\<not> int4 n \<longrightarrow>
          deleteSavedPropertyHandler db (Some sessionUser) propertyIdParam
            = ((500, Message ''Failed to remove saved property''), db))"
proof -
  from assms(2) parseInt_cases [of propertyIdParam]
  obtain n where n: "parseInt propertyIdParam = Num n"
    by (auto simp: isNaN_def)
  have "int4 n \<Longrightarrow> deleteSavedPropertyHandler db (Some sessionUser) propertyIdParam
            = ((200, Message ''Property removed from saved list successfully''),
               db\<lparr> savedProperties :=
                     filter (\<lambda>s. \<not> savedPair (uw_id sessionUser) n s) (savedProperties db) \<rparr>)"
    using assms(1) n
    by (simp add: deleteSavedPropertyHandler_def Let_def isNaN_def unsaveProperty_accepted)
  moreover have "\<not> int4 n \<Longrightarrow> deleteSavedPropertyHandler db (Some sessionUser) propertyIdParam
            = ((500, Message ''Failed to remove saved property''), db)"
    using n
    by (simp add: deleteSavedPropertyHandler_def Let_def isNaN_def unsaveProperty_rejected)
  ultimately show ?thesis
    using n by (auto simp: unsave_removes unsave_absent)
qed

theorem unsave_total_witness:
  "int4 (uw_id (withoutPassword alice)) \<and> \<not> isNaN (parseInt ''7'')
   \<and> \<not> isPropertySaved exampleDb 1 7
   \<and> deleteSavedPropertyHandler exampleDb (Some (withoutPassword alice)) ''7''
     = ((200, Message ''Property removed from saved list successfully''), exampleDb)
   \<and> \<not> isNaN (parseInt ''2147483648'')
   \<and> fst (deleteSavedPropertyHandler exampleDb (Some (withoutPassword alice)) ''2147483648'')
     = (500, Message ''Failed to remove saved property'')"
proof -
  have i: "uw_id (withoutPassword alice) = 1" by (simp add: withoutPassword_def alice_def)
  then have u: "int4 (uw_id (withoutPassword alice))" by (simp add: int4_def)
  have p: "parseInt ''7'' = Num 7" by (simp add: parseInt_defs)
  have q: "parseInt ''2147483648'' = Num 2147483648" by (simp add: parseInt_defs)
  from p have h: "\<not> isNaN (parseInt ''7'')" by (simp add: isNaN_def)
  from q have k: "\<not> isNaN (parseInt ''2147483648'')" by (simp add: isNaN_def)
  have a: "\<not> isPropertySaved exampleDb 1 7"
    by (simp add: isPropertySaved_def exampleDb_def emptyDb_def)
  have s: "int4 7" and b: "\<not> int4 2147483648" by (simp_all add: int4_def)
  from unsave_total [OF u h, of exampleDb] p s a i
  have 1: "deleteSavedPropertyHandler exampleDb (Some (withoutPassword alice)) ''7''
     = ((200, Message ''Property removed from saved list successfully''), exampleDb)"
    by (auto simp: prod_eq_iff)
  from unsave_total [OF u k, of exampleDb] q b
  have 2: "fst (deleteSavedPropertyHandler exampleDb (Some (withoutPassword alice)) ''2147483648'')
     = (500, Message ''Failed to remove saved property'')"
    by auto
  from u h a 1 k 2 show ?thesis by simp
qed


section \<open>Registration and login\<close>

lemma filter_eq_ConsD: "filter P xs = y # ys \<Longrightarrow> y \<in> set xs \<and> P y"
proof -
  assume "filter P xs = y # ys"
  then have "y \<in> set (filter P xs)" by simp
  then show ?thesis by simp
qed

lemma getUserByUsername_rejected:
  "\<not> textOk n \<Longrightarrow> getUserByUsername db n = Inl DataException"
  by (simp add: getUserByUsername_def textParam_def)

lemma getUserByUsername_None:
  "textOk n \<Longrightarrow> getUserByUsername db n = Inr None \<longleftrightarrow> \<not> usernameTaken db n"
  by (auto simp: getUserByUsername_def textParam_def usernameTaken_def filter_empty_conv
      list_ex_iff split: list.splits dest: filter_eq_ConsD)

lemma getUserByUsername_Some:
  "getUserByUsername db n = Inr (Some u) \<Longrightarrow> u \<in> set (users db) \<and> u_username u = n"
  by (auto simp: getUserByUsername_def textParam_def split: list.splits if_splits
      dest: filter_eq_ConsD)

lemma getUserByUsername_taken:
  "textOk n \<Longrightarrow> usernameTaken db n \<Longrightarrow> \<exists>u. getUserByUsername db n = Inr (Some u)"
  using getUserByUsername_None [of n db]
  by (cases "getUserByUsername db n") (auto simp: getUserByUsername_def textParam_def)

lemma present_optionalTexts: "list_all P (optionalTexts v) = present P v"
  by (simp add: optionalTexts_def present_def split: option.splits)

lemma createUser_stored:
  assumes "textOk (iu_username data)" and "\<not> usernameTaken db (iu_username data)"
    and "storable env data" and "\<not> emailTaken db (iu_email data)"
  shows "createUser env db data =
     Inr (\<lparr> u_id = users_seq db + 1, u_username = iu_username data,
            u_password = bcryptHash env (iu_password data), u_email = iu_email data,
            u_name = iu_name data, u_phone = iu_phone data, u_role = ''user'',
            u_profileImage = None, u_createdAt = Some (now env) \<rparr>,
          db\<lparr> users := users db @
             [\<lparr> u_id = users_seq db + 1, u_username = iu_username data,
                u_password = bcryptHash env (iu_password data), u_email = iu_email data,
                u_name = iu_name data, u_phone = iu_phone data, u_role = ''user'',
                u_profileImage = None, u_createdAt = Some (now env) \<rparr>],
             users_seq := users_seq db + 1 \<rparr>)"
proof -
  from assms(2) have fresh: "\<And>v. v \<in> set (users db) \<Longrightarrow> u_username v \<noteq> iu_username data"
    by (simp add: usernameTaken_def list_ex_iff)
  show ?thesis
    using assms(1,3,4)
    by (cases "iu_email data")
      (auto simp: createUser_def insertIntoUsers_def Let_def usersConflict_def emailTaken_def
        storable_def present_optionalTexts list_ex_iff fresh)
qed

lemma createUser_raises:
  assumes "\<not> storable env data \<or> emailTaken db (iu_email data)"
  shows "\<exists>e. createUser env db data = Inl e"
  using assms
  by (cases "iu_email data")
    (auto simp: createUser_def insertIntoUsers_def Let_def usersConflict_def emailTaken_def
      storable_def present_optionalTexts list_ex_iff)

lemma jsonMembers_no_password: "''password'' \<notin> fst ` set (jsonMembers u)"
  by (simp add: jsonMembers_def)

text \<open>
  C4, as the specification states it, fails in its second half: a valid body with a
  username nobody has, but with the e-mail address of an existing user, is not answered
  with 201. The insert violates the unique constraint on \<open>email\<close>, \<open>createUser\<close> raises,
  and the handler answers 500; no row is added.
\<close>

theorem register_email_clash_counterexample:
  "insertUserSchema (registerBody ''bob'' ''secret2'' ''alice@example.com'')
     = Inr \<lparr> iu_username = ''bob'', iu_password = ''secret2'',
             iu_email = Some ''alice@example.com'', iu_name = None, iu_phone = None \<rparr>
   \<and> \<not> usernameTaken usersDb ''bob''
   \<and> registerHandler exampleEnv usersDb (registerBody ''bob'' ''secret2'' ''alice@example.com'')
       = ((500, Message ''Failed to register user''), usersDb)"
proof -
  have v: "insertUserSchema (registerBody ''bob'' ''secret2'' ''alice@example.com'')
     = Inr \<lparr> iu_username = ''bob'', iu_password = ''secret2'',
             iu_email = Some ''alice@example.com'', iu_name = None, iu_phone = None \<rparr>"
    by (simp add: insertUserSchema_def registerBody_def zod_defs)
  have r: "\<not> usernameTaken usersDb ''bob''
   \<and> registerHandler exampleEnv usersDb (registerBody ''bob'' ''secret2'' ''alice@example.com'')
       = ((500, Message ''Failed to register user''), usersDb)"
    by (simp add: v registerHandler_def getUserByUsername_def textParam_def textOk_def
        usernameTaken_def createUser_def insertIntoUsers_def Let_def usersConflict_def
        optionalTexts_def example_users)
  from v r show ?thesis by simp
qed

text \<open>
  C4, amended: for every registration request with a valid body, whose username has no
  character U+0000: if the username already names an existing user the answer is 409 and
  the store is unchanged; otherwise, if the data can be stored (the hash of the password
  and the e-mail address, name and phone that are given have no character U+0000, and the
  username and the e-mail address fit the index of their unique column) and the e-mail
  address is absent or not the address of an existing user, the answer is 201 with
  the created user without its password member, and exactly that user, with the hashed
  password and the role \<open>user\<close>, is appended to the users; otherwise the insert raises,
  the answer is 500 and the store is unchanged. A username with a character U+0000 makes
  the lookup raise: the answer is 500 and the store is unchanged.
\<close>

theorem register_amended:
  assumes "insertUserSchema reqBody = Inr data"
  shows "(\<not> textOk (iu_username data) \<longrightarrow>
            registerHandler env db reqBody = ((500, Message ''Failed to register user''), db))
    \<and> (textOk (iu_username data) \<and> usernameTaken db (iu_username data) \<longrightarrow>
            registerHandler env db reqBody = ((409, Message ''Username already exists''), db))
    \<and> (textOk (iu_username data) \<and> \<not> usernameTaken db (iu_username data)
         \<and> (\<not> storable env data \<or> emailTaken db (iu_email data)) \<longrightarrow>
            registerHandler env db reqBody = ((500, Message ''Failed to register user''), db))
    \<and> (textOk (iu_username data) \<and> \<not> usernameTaken db (iu_username data)
         \<and> storable env data \<and> \<not> emailTaken db (iu_email data) \<longrightarrow>
          (\<exists>u. registerHandler env db reqBody
                  = ((201, UserBody (withoutPassword u)),
                     db\<lparr> users := users db @ [u], users_seq := users_seq db + 1 \<rparr>)
              \<and> u_username u = iu_username data
              \<and> u_password u = bcryptHash env (iu_password data)
              \<and> u_email u = iu_email data \<and> u_name u = iu_name data \<and> u_phone u = iu_phone data
              \<and> u_role u = ''user''
              \<and> ''password'' \<notin> fst ` set (jsonMembers (withoutPassword u))))"
proof (intro conjI impI)
  assume "\<not> textOk (iu_username data)"
  with assms show "registerHandler env db reqBody = ((500, Message ''Failed to register user''), db)"
    by (simp add: registerHandler_def getUserByUsername_rejected)
next
  assume "textOk (iu_username data) \<and> usernameTaken db (iu_username data)"
  then obtain u where "getUserByUsername db (iu_username data) = Inr (Some u)"
    using getUserByUsername_taken by blast
  with assms show "registerHandler env db reqBody = ((409, Message ''Username already exists''), db)"
    by (simp add: registerHandler_def)
next
  assume a: "textOk (iu_username data) \<and> \<not> usernameTaken db (iu_username data)
         \<and> (\<not> storable env data \<or> emailTaken db (iu_email data))"
  then have "getUserByUsername db (iu_username data) = Inr None"
    by (simp add: getUserByUsername_None)
  moreover from a obtain e where "createUser env db data = Inl e"
    using createUser_raises by blast
  ultimately show "registerHandler env db reqBody = ((500, Message ''Failed to register user''), db)"
    using assms by (simp add: registerHandler_def)
next
  assume a: "textOk (iu_username data) \<and> \<not> usernameTaken db (iu_username data)
         \<and> storable env data \<and> \<not> emailTaken db (iu_email data)"
  then have g: "getUserByUsername db (iu_username data) = Inr None"
    by (simp add: getUserByUsername_None)
  let ?u = "\<lparr> u_id = users_seq db + 1, u_username = iu_username data,
                  u_password = bcryptHash env (iu_password data), u_email = iu_email data,
                  u_name = iu_name data, u_phone = iu_phone data, u_role = ''user'',
                  u_profileImage = None, u_createdAt = Some (now env) \<rparr>"
  from assms a g have "registerHandler env db reqBody
      = ((201, UserBody (withoutPassword ?u)),
         db\<lparr> users := users db @ [?u], users_seq := users_seq db + 1 \<rparr>)"
    by (simp add: registerHandler_def createUser_stored)
  then show "\<exists>u. registerHandler env db reqBody
                  = ((201, UserBody (withoutPassword u)),
                     db\<lparr> users := users db @ [u], users_seq := users_seq db + 1 \<rparr>)
              \<and> u_username u = iu_username data
              \<and> u_password u = bcryptHash env (iu_password data)
              \<and> u_email u = iu_email data \<and> u_name u = iu_name data \<and> u_phone u = iu_phone data
              \<and> u_role u = ''user''
              \<and> ''password'' \<notin> fst ` set (jsonMembers (withoutPassword u))"
    by (intro exI [of _ ?u]) (simp add: jsonMembers_no_password)
qed

lemma insertUserSchema_registerBody:
  "insertUserSchema (registerBody u p e)
     = Inr \<lparr> iu_username = u, iu_password = p, iu_email = Some e, iu_name = None,
             iu_phone = None \<rparr>"
  by (simp add: insertUserSchema_def registerBody_def zod_defs)

theorem register_amended_witness:
  "registerHandler exampleEnv usersDb (registerBody nulName ''secret2'' ''n@example.com'')
     = ((500, Message ''Failed to register user''), usersDb)
   \<and> registerHandler exampleEnv usersDb (registerBody ''alice'' ''other'' ''a@example.com'')
     = ((409, Message ''Username already exists''), usersDb)
   \<and> registerHandler exampleEnv usersDb (registerBody ''bob'' ''secret2'' ''alice@example.com'')
     = ((500, Message ''Failed to register user''), usersDb)
   \<and> fst (registerHandler exampleEnv usersDb (registerBody ''bob'' ''secret2'' ''bob@example.com''))
       = (201, UserBody \<lparr> uw_id = 3, uw_username = ''bob'', uw_email = Some ''bob@example.com'',
              uw_name = None, uw_phone = None, uw_role = ''user'', uw_profileImage = None,
              uw_createdAt = Some 1000 \<rparr>)
   \<and> map u_username
        (users (snd (registerHandler exampleEnv usersDb
                       (registerBody ''bob'' ''secret2'' ''bob@example.com''))))
       = [''alice'', ''admin'', ''bob'']"
proof -
  note v = insertUserSchema_registerBody
  have n: "\<not> textOk nulName" by (simp add: textOk_def nulName_def)
  have ta: "textOk ''alice''" and tb: "textOk ''bob''" by (simp_all add: textOk_def)
  have a: "usernameTaken usersDb ''alice''"
    by (simp add: usernameTaken_def example_users)
  have b: "\<not> usernameTaken usersDb ''bob''"
    by (simp add: usernameTaken_def example_users)
  have e1: "emailTaken usersDb (Some ''alice@example.com'')"
    by (simp add: emailTaken_def example_users)
  have e2: "\<not> emailTaken usersDb (Some ''bob@example.com'')"
    by (simp add: emailTaken_def example_users)
  have s: "storable exampleEnv \<lparr> iu_username = ''bob'', iu_password = ''secret2'',
      iu_email = Some ''bob@example.com'', iu_name = None, iu_phone = None \<rparr>"
    by (simp add: storable_def present_def textOk_def exampleEnv_def)
  from register_amended [OF v [of nulName "''secret2''" "''n@example.com''"], where env = exampleEnv and db = usersDb] n
  have 1: "registerHandler exampleEnv usersDb (registerBody nulName ''secret2'' ''n@example.com'')
     = ((500, Message ''Failed to register user''), usersDb)" by simp
  from register_amended [OF v [of "''alice''" "''other''" "''a@example.com''"], where env = exampleEnv and db = usersDb] ta a
  have 2: "registerHandler exampleEnv usersDb (registerBody ''alice'' ''other'' ''a@example.com'')
     = ((409, Message ''Username already exists''), usersDb)" by simp
  from register_amended [OF v [of "''bob''" "''secret2''" "''alice@example.com''"], where env = exampleEnv and db = usersDb]
    tb b e1
  have 3: "registerHandler exampleEnv usersDb (registerBody ''bob'' ''secret2'' ''alice@example.com'')
     = ((500, Message ''Failed to register user''), usersDb)" by simp
  from register_amended [OF v [of "''bob''" "''secret2''" "''bob@example.com''"], where env = exampleEnv and db = usersDb]
    tb b e2 s
  obtain u where u: "registerHandler exampleEnv usersDb (registerBody ''bob'' ''secret2'' ''bob@example.com'')
                  = ((201, UserBody (withoutPassword u)),
                     usersDb\<lparr> users := users usersDb @ [u], users_seq := users_seq usersDb + 1 \<rparr>)"
     "u_username u = ''bob''" "u_email u = Some ''bob@example.com''" "u_name u = None"
     "u_phone u = None" "u_role u = ''user''"
    by auto
  then have 5: "map u_username
        (users (snd (registerHandler exampleEnv usersDb
                       (registerBody ''bob'' ''secret2'' ''bob@example.com''))))
       = [''alice'', ''admin'', ''bob'']"
    by (simp add: example_users)
  have g: "getUserByUsername usersDb ''bob'' = Inr None"
    using tb b by (simp add: getUserByUsername_None)
  have 4: "fst (registerHandler exampleEnv usersDb (registerBody ''bob'' ''secret2'' ''bob@example.com''))
       = (201, UserBody \<lparr> uw_id = 3, uw_username = ''bob'', uw_email = Some ''bob@example.com'',
              uw_name = None, uw_phone = None, uw_role = ''user'', uw_profileImage = None,
              uw_createdAt = Some 1000 \<rparr>)"
  proof -
    have "fst (registerHandler exampleEnv usersDb (registerBody ''bob'' ''secret2'' ''bob@example.com''))
       = (201, UserBody (withoutPassword
            \<lparr> u_id = users_seq usersDb + 1, u_username = ''bob'',
              u_password = bcryptHash exampleEnv ''secret2'', u_email = Some ''bob@example.com'',
              u_name = None, u_phone = None, u_role = ''user'', u_profileImage = None,
              u_createdAt = Some (now exampleEnv) \<rparr>))"
      using s by (simp add: registerHandler_def v g createUser_stored tb b e2)
    then show ?thesis
      by (simp add: withoutPassword_def example_users)
  qed
  from 1 2 3 4 5 show ?thesis by simp
qed

text \<open>
  C5, as stated, fails: a login with a username that contains the character U+0000 (a
  username no user has) passes \<open>loginSchema\<close>, the lookup raises, the verify callback
  reports the error, and the answer is 500 with the message of the error, not 401 with
  \<open>Incorrect username.\<close>
\<close>

theorem login_nul_username_counterexample:
  "loginSchema (loginBody nulName ''secret1'')
     = Inr \<lparr> l_username = nulName, l_password = ''secret1'' \<rparr>
   \<and> \<not> usernameTaken usersDb nulName
   \<and> loginHandler exampleEnv usersDb (loginBody nulName ''secret1'')
       = ((500, ErrorMessage DataException), None)"
  by (simp add: loginSchema_def loginBody_def zod_defs nulName_def usernameTaken_def
      loginHandler_def verify_def getUserByUsername_def textParam_def textOk_def example_users)

text \<open>
  C5, amended: for every login attempt that reaches credential verification (a body that
  passes \<open>loginSchema\<close>) and whose username has no character U+0000, an unknown username
  is rejected, status 401, with the message \<open>Incorrect username.\<close>, a known username
  with a password that does not match the stored hash is rejected, status 401, with the
  message \<open>Incorrect password.\<close>, and matching credentials give status 200 with a user
  payload that has no password member, the user's id being stored in the session. A
  username with a character U+0000 makes the lookup raise: the verify callback fails, and
  the answer is 500 with the message of the error. (The last conjunct says that a known
  username is one for which the lookup returns a stored user of that name.)
\<close>

theorem credential_verification:
  assumes "loginSchema reqBody = Inr data"
  shows "(\<not> textOk (l_username data) \<longrightarrow>
            verify env db (l_username data) (l_password data) = Failed DataException
            \<and> loginHandler env db reqBody = ((500, ErrorMessage DataException), None))
    \<and> (textOk (l_username data) \<and> \<not> usernameTaken db (l_username data) \<longrightarrow>
            verify env db (l_username data) (l_password data) = Rejected ''Incorrect username.''
            \<and> loginHandler env db reqBody = ((401, Message ''Incorrect username.''), None))
    \<and> (\<forall>u. getUserByUsername db (l_username data) = Inr (Some u)
            \<and> \<not> bcryptCompare env (l_password data) (u_password u) \<longrightarrow>
            verify env db (l_username data) (l_password data) = Rejected ''Incorrect password.''
            \<and> loginHandler env db reqBody = ((401, Message ''Incorrect password.''), None))
    \<and> (\<forall>u. getUserByUsername db (l_username data) = Inr (Some u)
            \<and> bcryptCompare env (l_password data) (u_password u) \<longrightarrow>
            verify env db (l_username data) (l_password data) = Verified u
            \<and> loginHandler env db reqBody
                = ((200, MessageUser ''Login successful'' (withoutPassword u)), Some (u_id u))
            \<and> ''password'' \<notin> fst ` set (jsonMembers (withoutPassword u)))
    \<and> (textOk (l_username data) \<and> usernameTaken db (l_username data) \<longrightarrow>
          (\<exists>u. getUserByUsername db (l_username data) = Inr (Some u)
                \<and> u \<in> set (users db) \<and> u_username u = l_username data))"
proof (intro conjI impI allI)
  assume "\<not> textOk (l_username data)"
  with assms show "verify env db (l_username data) (l_password data) = Failed DataException"
    and "loginHandler env db reqBody = ((500, ErrorMessage DataException), None)"
    by (simp_all add: loginHandler_def verify_def getUserByUsername_rejected)
next
  assume "textOk (l_username data) \<and> \<not> usernameTaken db (l_username data)"
  then have "getUserByUsername db (l_username data) = Inr None"
    by (simp add: getUserByUsername_None)
  with assms show "verify env db (l_username data) (l_password data) = Rejected ''Incorrect username.''"
    and "loginHandler env db reqBody = ((401, Message ''Incorrect username.''), None)"
    by (simp_all add: loginHandler_def verify_def)
next
  fix u
  assume "getUserByUsername db (l_username data) = Inr (Some u)
            \<and> \<not> bcryptCompare env (l_password data) (u_password u)"
  with assms show "verify env db (l_username data) (l_password data) = Rejected ''Incorrect password.''"
    and "loginHandler env db reqBody = ((401, Message ''Incorrect password.''), None)"
    by (simp_all add: loginHandler_def verify_def)
next
  fix u
  assume "getUserByUsername db (l_username data) = Inr (Some u)
            \<and> bcryptCompare env (l_password data) (u_password u)"
  with assms show "verify env db (l_username data) (l_password data) = Verified u"
    and "loginHandler env db reqBody
                = ((200, MessageUser ''Login successful'' (withoutPassword u)), Some (u_id u))"
    by (simp_all add: loginHandler_def verify_def serializeUser_def)
  show "''password'' \<notin> fst ` set (jsonMembers (withoutPassword u))"
    by (rule jsonMembers_no_password)
next
  assume "textOk (l_username data) \<and> usernameTaken db (l_username data)"
  then obtain u where "getUserByUsername db (l_username data) = Inr (Some u)"
    using getUserByUsername_taken by blast
  then show "\<exists>u. getUserByUsername db (l_username data) = Inr (Some u)
                \<and> u \<in> set (users db) \<and> u_username u = l_username data"
    using getUserByUsername_Some by blast
qed

theorem credential_verification_witness:
  "loginHandler exampleEnv usersDb (loginBody nulName ''secret1'')
     = ((500, ErrorMessage DataException), None)
   \<and> loginHandler exampleEnv usersDb (loginBody ''carol'' ''secret1'')
     = ((401, Message ''Incorrect username.''), None)
   \<and> loginHandler exampleEnv usersDb (loginBody ''alice'' ''wrong'')
     = ((401, Message ''Incorrect password.''), None)
   \<and> loginHandler exampleEnv usersDb (loginBody ''alice'' ''secret1'')
     = ((200, MessageUser ''Login successful'' (withoutPassword alice)), Some 1)"
proof -
  have s: "\<And>u p. u \<noteq> [] \<Longrightarrow> p \<noteq> [] \<Longrightarrow>
      loginSchema (loginBody u p) = Inr \<lparr> l_username = u, l_password = p \<rparr>"
    by (simp add: loginSchema_def loginBody_def zod_defs Suc_le_eq)
  have n: "\<not> textOk nulName" "nulName \<noteq> []" by (simp_all add: textOk_def nulName_def)
  have c: "textOk ''carol''" "\<not> usernameTaken usersDb ''carol''"
    by (simp_all add: textOk_def usernameTaken_def example_users)
  have a: "getUserByUsername usersDb ''alice'' = Inr (Some alice)"
    by (simp add: getUserByUsername_def textParam_def textOk_def example_users)
  have w: "\<not> bcryptCompare exampleEnv ''wrong'' (u_password alice)"
    by (simp add: example_users)
  have r: "bcryptCompare exampleEnv ''secret1'' (u_password alice)"
    by (simp add: example_users)
  have i: "u_id alice = 1" by (simp add: alice_def)
  from credential_verification [OF s [of nulName "''secret1''"], where env = exampleEnv and db = usersDb] n
  have 0: "loginHandler exampleEnv usersDb (loginBody nulName ''secret1'')
     = ((500, ErrorMessage DataException), None)" by simp
  from credential_verification [OF s [of "''carol''" "''secret1''"], where env = exampleEnv and db = usersDb] c
  have 1: "loginHandler exampleEnv usersDb (loginBody ''carol'' ''secret1'')
     = ((401, Message ''Incorrect username.''), None)" by simp
  from credential_verification [OF s [of "''alice''" "''wrong''"], where env = exampleEnv and db = usersDb] a w
  have 2: "loginHandler exampleEnv usersDb (loginBody ''alice'' ''wrong'')
     = ((401, Message ''Incorrect password.''), None)" by simp
  from credential_verification [OF s [of "''alice''" "''secret1''"], where env = exampleEnv and db = usersDb] a r i
  have 3: "loginHandler exampleEnv usersDb (loginBody ''alice'' ''secret1'')
     = ((200, MessageUser ''Login successful'' (withoutPassword alice)), Some 1)" by simp
  from 0 1 2 3 show ?thesis by simp
qed


section \<open>Newest first\<close>

lemma descBefore_total: "\<not> descBefore a b \<Longrightarrow> descBefore b a"
  by (cases "(a, b)" rule: descBefore.cases) auto

lemma descBefore_trans: "descBefore a b \<Longrightarrow> descBefore b c \<Longrightarrow> descBefore a c"
  by (cases a; cases b; cases c) auto

lemma descBefore_iff:
  "descBefore a b \<longleftrightarrow> a = None \<or> (\<exists>x y. a = Some x \<and> b = Some y \<and> y \<le> x)"
  by (cases "(a, b)" rule: descBefore.cases) auto

lemma mset_insertDesc: "mset (insertDesc key x xs) = add_mset x (mset xs)"
  by (induction xs) auto

lemma set_insertDesc: "set (insertDesc key x xs) = insert x (set xs)"
  by (induction xs) auto

lemma sorted_insertDesc:
  "sorted_wrt (\<lambda>a b. descBefore (key a) (key b)) xs
   \<Longrightarrow> sorted_wrt (\<lambda>a b. descBefore (key a) (key b)) (insertDesc key x xs)"
proof (induction xs)
  case Nil
  then show ?case by simp
next
  case (Cons y ys)
  show ?case
  proof (cases "descBefore (key x) (key y)")
    case True
    with Cons.prems show ?thesis
      by (auto intro: descBefore_trans)
  next
    case False
    then have "descBefore (key y) (key x)" by (rule descBefore_total)
    with False Cons show ?thesis
      by (auto simp: set_insertDesc)
  qed
qed

lemma mset_orderByDesc: "mset (orderByDesc key rows) = mset rows"
  by (induction rows) (simp_all add: orderByDesc_def mset_insertDesc)

lemma set_orderByDesc: "set (orderByDesc key rows) = set rows"
  using mset_orderByDesc [of key rows] by (metis set_mset_mset)

lemma count_list_orderByDesc: "count_list (orderByDesc key rows) r = count_list rows r"
  using mset_orderByDesc [of key rows] by (metis count_mset)

lemma sorted_orderByDesc:
  "sorted_wrt (\<lambda>a b. descBefore (key a) (key b)) (orderByDesc key rows)"
proof (induction rows)
  case Nil
  then show ?case by (simp add: orderByDesc_def)
next
  case (Cons r rows)
  then show ?case
    using sorted_insertDesc [of key "orderByDesc key rows" r] by (simp add: orderByDesc_def)
qed

lemma set_innerJoin:
  "set (innerJoin ss ps) = {(s, p). s \<in> set ss \<and> p \<in> set ps \<and> s_propertyId s = p_id p}"
  by (auto simp: innerJoin_def)

lemma count_list_filter:
  "count_list (filter P xs) x = (if P x then count_list xs x else 0)"
  by (induction xs) auto

lemma count_list_map_Pair:
  "count_list (map (Pair a) xs) (s, p) = (if a = s then count_list xs p else 0)"
  by (induction xs) auto

lemma count_list_innerJoin:
  "count_list (innerJoin ss ps) (s, p)
     = (if s_propertyId s = p_id p then count_list ss s * count_list ps p else 0)"
  by (induction ss) (auto simp: innerJoin_def count_list_map_Pair count_list_filter)

text \<open>
  C8: \<open>getEnquiries\<close> returns all enquiries (the same rows, as a multiset) ordered by
  creation time, latest first; \<open>getSavedProperties\<close> returns the properties of the rows
  that join a saved row of the given user with the property it names, each pair as often
  as the saved row and the property are stored and no other pair, ordered by the creation
  time of the saved row, latest first. The last conjunct spells the order out:
  \<open>descBefore a b\<close> holds when \<open>a\<close> is no timestamp, or both are timestamps and \<open>b\<close> is
  not later than \<open>a\<close>; so between two timestamps the later one stands first, and a row
  without a timestamp stands before the rows that have one, as in the database.
\<close>

theorem newest_first:
  "sorted_wrt (\<lambda>a b. descBefore (e_createdAt a) (e_createdAt b)) (getEnquiries db)
   \<and> mset (getEnquiries db) = mset (enquiries db)
   \<and> getSavedProperties db userId = map snd (savedPropertiesResult db userId)
   \<and> sorted_wrt (\<lambda>a b. descBefore (s_createdAt (fst a)) (s_createdAt (fst b)))
        (savedPropertiesResult db userId)
   \<and> set (savedPropertiesResult db userId)
       = {(s, p). s \<in> set (savedProperties db) \<and> p \<in> set (properties db)
                  \<and> s_userId s = userId \<and> s_propertyId s = p_id p}
   \<and> (\<forall>s p. count_list (savedPropertiesResult db userId) (s, p)
          = (if s_userId s = userId \<and> s_propertyId s = p_id p
             then count_list (savedProperties db) s * count_list (properties db) p else 0))
   \<and> (\<forall>a b. descBefore a b
          \<longleftrightarrow> a = None \<or> (\<exists>x y. a = Some x \<and> b = Some y \<and> y \<le> x))"
proof (intro conjI allI)
  show "sorted_wrt (\<lambda>a b. descBefore (e_createdAt a) (e_createdAt b)) (getEnquiries db)"
    by (simp add: getEnquiries_def sorted_orderByDesc)
  show "mset (getEnquiries db) = mset (enquiries db)"
    by (simp add: getEnquiries_def mset_orderByDesc)
  show "getSavedProperties db userId = map snd (savedPropertiesResult db userId)"
    by (simp add: getSavedProperties_def)
  show "sorted_wrt (\<lambda>a b. descBefore (s_createdAt (fst a)) (s_createdAt (fst b)))
        (savedPropertiesResult db userId)"
    unfolding savedPropertiesResult_def
    by (rule sorted_orderByDesc [of "\<lambda>r. s_createdAt (fst r)"])
  show "set (savedPropertiesResult db userId)
       = {(s, p). s \<in> set (savedProperties db) \<and> p \<in> set (properties db)
                  \<and> s_userId s = userId \<and> s_propertyId s = p_id p}"
    by (auto simp: savedPropertiesResult_def set_orderByDesc set_innerJoin)
  show "count_list (savedPropertiesResult db userId) (s, p)
          = (if s_userId s = userId \<and> s_propertyId s = p_id p
             then count_list (savedProperties db) s * count_list (properties db) p else 0)"
    for s p
    by (simp add: savedPropertiesResult_def count_list_orderByDesc count_list_filter
        count_list_innerJoin)
  show "descBefore a b \<longleftrightarrow> a = None \<or> (\<exists>x y. a = Some x \<and> b = Some y \<and> y \<le> x)" for a b
    by (rule descBefore_iff)
qed


section \<open>The property invariant\<close>

lemma acceptedNumber_Num: "acceptedNumber v \<Longrightarrow> \<exists>n. v = Num n \<and> intParam v = Inr n"
  by (cases v) (simp_all add: acceptedNumber_def intParam_def int4_def)

lemma intParam_not_accepted: "\<not> acceptedNumber v \<Longrightarrow> intParam v = Inl DataException"
  by (cases v) (simp_all add: acceptedNumber_def intParam_def int4_def)

lemma optionalInt_accepted:
  "present acceptedNumber v \<Longrightarrow> \<exists>k. optionalInt v = Inr k"
  by (cases v) (auto simp: present_def optionalInt_def dest: acceptedNumber_Num)

lemma optionalInt_not_accepted:
  "\<not> present acceptedNumber v \<Longrightarrow> optionalInt v = Inl DataException"
  by (cases v) (auto simp: present_def optionalInt_def intParam_not_accepted)

lemma insertedProperty_accepted:
  assumes "propertyAccepted ip"
  shows "\<exists>row. insertedProperty i ip = Inr row \<and> p_images row = ip_images ip
           \<and> Num (p_price row) = ip_price ip"
proof -
  from assms obtain n where n: "ip_price ip = Num n" "intParam (ip_price ip) = Inr n"
    by (auto simp: propertyAccepted_def dest: acceptedNumber_Num)
  from assms obtain a b c d e where o: "optionalInt (ip_bedrooms ip) = Inr a"
    "optionalInt (ip_bathrooms ip) = Inr b" "optionalInt (ip_area ip) = Inr c"
    "optionalInt (ip_builderId ip) = Inr d" "optionalInt (ip_agentId ip) = Inr e"
    unfolding propertyAccepted_def by (meson optionalInt_accepted)
  from assms have t: "list_all textOk (propertyTexts ip)"
    by (simp add: propertyAccepted_def)
  show ?thesis
    by (simp add: insertedProperty_def n(2) o t n(1) [symmetric])
qed

lemma insertedProperty_rejected:
  assumes "\<not> propertyAccepted ip"
  shows "insertedProperty i ip = Inl DataException"
proof -
  from assms consider "\<not> acceptedNumber (ip_price ip)"
    | "\<not> present acceptedNumber (ip_bedrooms ip)"
    | "\<not> present acceptedNumber (ip_bathrooms ip)"
    | "\<not> present acceptedNumber (ip_area ip)"
    | "\<not> present acceptedNumber (ip_builderId ip)"
    | "\<not> present acceptedNumber (ip_agentId ip)"
    | "\<not> list_all textOk (propertyTexts ip)"
    by (auto simp: propertyAccepted_def)
  then show ?thesis
  proof cases
    case 1
    then show ?thesis
      by (simp add: insertedProperty_def intParam_not_accepted)
  next
    case 2
    then show ?thesis
      by (simp add: insertedProperty_def optionalInt_not_accepted split: sum.splits)
  next
    case 3
    then show ?thesis
      by (simp add: insertedProperty_def optionalInt_not_accepted split: sum.splits)
  next
    case 4
    then show ?thesis
      by (simp add: insertedProperty_def optionalInt_not_accepted split: sum.splits)
  next
    case 5
    then show ?thesis
      by (simp add: insertedProperty_def optionalInt_not_accepted split: sum.splits)
  next
    case 6
    then show ?thesis
      by (simp add: insertedProperty_def optionalInt_not_accepted split: sum.splits)
  next
    case 7
    then show ?thesis
      by (simp add: insertedProperty_def split: sum.splits)
  qed
qed

lemma set_getProperties: "set (rowsOf (getProperties db filt)) \<subseteq> set (properties db)"
  by (auto simp: getProperties_def selectWhere_def Let_def rowsOf_def split: sum.splits)

lemma set_limitRows: "set (rowsOf (limitRows limit rows)) \<subseteq> set rows"
  by (cases limit) (auto simp: limitRows_def rowsOf_def dest: in_set_takeD)

lemma set_getFeaturedProperties:
  "set (rowsOf (getFeaturedProperties db limit)) \<subseteq> set (properties db)"
  using set_limitRows [of "withDefault (Num 10) limit"
      "filter (\<lambda>p. p_featured p = Some True) (properties db)"]
  by (auto simp: getFeaturedProperties_def)

lemma set_getPropertiesByCity:
  "set (rowsOf (getPropertiesByCity db city limit)) \<subseteq> set (properties db)"
proof (cases "textParam city")
  case (Inl e)
  then show ?thesis by (simp add: getPropertiesByCity_def rowsOf_def)
next
  case (Inr c)
  with set_limitRows [of "withDefault (Num 10) limit" "filter (\<lambda>p. p_city p = c) (properties db)"]
  show ?thesis by (auto simp: getPropertiesByCity_def)
qed

lemma set_getProperty: "set (rowOf (getProperty db i)) \<subseteq> set (properties db)"
  by (auto simp: getProperty_def rowOf_def split: sum.splits list.splits option.splits
      dest: filter_eq_ConsD)

lemma set_getSavedProperties: "set (getSavedProperties db userId) \<subseteq> set (properties db)"
  by (auto simp: getSavedProperties_def savedPropertiesResult_def set_orderByDesc set_innerJoin)

text \<open>
  C6, as the specification states it, fails: \<open>createProperty\<close> checks nothing, so from
  the empty store, where the invariant holds, it stores a property with no image and a
  negative price.
\<close>

theorem createProperty_invariant_counterexample:
  "propertyInvariant emptyDb
   \<and> createProperty emptyDb badProperty
       = Inr (badRow, emptyDb\<lparr> properties := [badRow], properties_seq := 1 \<rparr>)
   \<and> p_images badRow = [] \<and> p_price badRow = - 1
   \<and> \<not> propertyInvariant (emptyDb\<lparr> properties := [badRow], properties_seq := 1 \<rparr>)"
  by (simp add: propertyInvariant_def emptyDb_def createProperty_def Let_def
      insertedProperty_def badProperty_def goodProperty_def badRow_def intParam_def int4_def
      optionalInt_def propertyTexts_def optionalTexts_def jsonTexts_def textOk_def
      withDefault_def)

text \<open>
  C6, amended: \<open>createProperty\<close> makes no check of its own. When the database accepts
  the property it is given (the price and the other integer members that are given are
  integers of 32 bits, no text has a character U+0000), it stores it, images and price as
  they are, at the end of the table, and the invariant (non-empty images, non-negative
  price, for every stored property) holds afterwards exactly when it held before and the
  given property has a non-empty image list and a non-negative price; otherwise it raises
  and stores nothing. \<open>getProperty\<close>, \<open>getProperties\<close>, \<open>getFeaturedProperties\<close>,
  \<open>getPropertiesByCity\<close> and \<open>getSavedProperties\<close> return stored properties only.
\<close>

theorem createProperty_invariant:
  "(propertyAccepted ip \<longrightarrow>
      (\<exists>row. createProperty db ip
                = Inr (row, db\<lparr> properties := properties db @ [row],
                                 properties_seq := properties_seq db + 1 \<rparr>)
            \<and> p_images row = ip_images ip \<and> Num (p_price row) = ip_price ip
            \<and> (propertyInvariant (db\<lparr> properties := properties db @ [row],
                                       properties_seq := properties_seq db + 1 \<rparr>)
                 \<longleftrightarrow> propertyInvariant db \<and> ip_images ip \<noteq> [] \<and> 0 \<le> p_price row)))
   \<and> (\<not> propertyAccepted ip \<longrightarrow> createProperty db ip = Inl DataException)
   \<and> set (rowOf (getProperty db i)) \<subseteq> set (properties db)
   \<and> set (rowsOf (getProperties db filt)) \<subseteq> set (properties db)
   \<and> set (rowsOf (getFeaturedProperties db limit)) \<subseteq> set (properties db)
   \<and> set (rowsOf (getPropertiesByCity db city limit)) \<subseteq> set (properties db)
   \<and> set (getSavedProperties db userId) \<subseteq> set (properties db)"
proof (intro conjI impI)
  assume "propertyAccepted ip"
  then obtain row where row: "insertedProperty (properties_seq db + 1) ip = Inr row"
    "p_images row = ip_images ip" "Num (p_price row) = ip_price ip"
    using insertedProperty_accepted by blast
  then show "\<exists>row. createProperty db ip
                = Inr (row, db\<lparr> properties := properties db @ [row],
                                 properties_seq := properties_seq db + 1 \<rparr>)
            \<and> p_images row = ip_images ip \<and> Num (p_price row) = ip_price ip
            \<and> (propertyInvariant (db\<lparr> properties := properties db @ [row],
                                       properties_seq := properties_seq db + 1 \<rparr>)
                 \<longleftrightarrow> propertyInvariant db \<and> ip_images ip \<noteq> [] \<and> 0 \<le> p_price row)"
    by (intro exI [of _ row]) (auto simp: createProperty_def Let_def propertyInvariant_def)
next
  assume "\<not> propertyAccepted ip"
  then show "createProperty db ip = Inl DataException"
    by (simp add: createProperty_def Let_def insertedProperty_rejected)
next
  show "set (rowOf (getProperty db i)) \<subseteq> set (properties db)"
    by (rule set_getProperty)
  show "set (rowsOf (getProperties db filt)) \<subseteq> set (properties db)"
    by (rule set_getProperties)
  show "set (rowsOf (getFeaturedProperties db limit)) \<subseteq> set (properties db)"
    by (rule set_getFeaturedProperties)
  show "set (rowsOf (getPropertiesByCity db city limit)) \<subseteq> set (properties db)"
    by (rule set_getPropertiesByCity)
  show "set (getSavedProperties db userId) \<subseteq> set (properties db)"
    by (rule set_getSavedProperties)
qed

theorem createProperty_invariant_witness:
  "propertyAccepted goodProperty
   \<and> (\<exists>row. createProperty emptyDb goodProperty
              = Inr (row, emptyDb\<lparr> properties := [row], properties_seq := 1 \<rparr>)
          \<and> p_images row = [''plot.jpg''] \<and> p_price row = 500000
          \<and> propertyInvariant (emptyDb\<lparr> properties := [row], properties_seq := 1 \<rparr>))
   \<and> \<not> propertyAccepted hugeProperty
   \<and> createProperty emptyDb hugeProperty = Inl DataException"
proof -
  have t: "list_all textOk (propertyTexts goodProperty)"
    by (simp add: propertyTexts_def goodProperty_def optionalTexts_def jsonTexts_def textOk_def)
  have a: "propertyAccepted goodProperty"
    using t by (simp add: propertyAccepted_def acceptedNumber_def present_def goodProperty_def)
  have r: "\<not> propertyAccepted hugeProperty"
    by (simp add: propertyAccepted_def acceptedNumber_def hugeProperty_def goodProperty_def)
  have e: "propertyInvariant emptyDb" "properties emptyDb = []" "properties_seq emptyDb = 0"
    by (simp_all add: propertyInvariant_def emptyDb_def)
  have g: "ip_images goodProperty = [''plot.jpg'']" "ip_price goodProperty = Num 500000"
    by (simp_all add: goodProperty_def)
  from createProperty_invariant [of goodProperty emptyDb] a
  obtain row where row: "createProperty emptyDb goodProperty
        = Inr (row, emptyDb\<lparr> properties := properties emptyDb @ [row],
                             properties_seq := properties_seq emptyDb + 1 \<rparr>)"
    "p_images row = ip_images goodProperty" "Num (p_price row) = ip_price goodProperty"
    "propertyInvariant (emptyDb\<lparr> properties := properties emptyDb @ [row],
                                 properties_seq := properties_seq emptyDb + 1 \<rparr>)
       \<longleftrightarrow> propertyInvariant emptyDb \<and> ip_images goodProperty \<noteq> [] \<and> 0 \<le> p_price row"
    by blast
  with e g have 1: "\<exists>row. createProperty emptyDb goodProperty
              = Inr (row, emptyDb\<lparr> properties := [row], properties_seq := 1 \<rparr>)
          \<and> p_images row = [''plot.jpg''] \<and> p_price row = 500000
          \<and> propertyInvariant (emptyDb\<lparr> properties := [row], properties_seq := 1 \<rparr>)"
    by (intro exI [of _ row]) simp
  from createProperty_invariant [of hugeProperty emptyDb] r
  have 2: "createProperty emptyDb hugeProperty = Inl DataException" by simp
  from a r 1 2 show ?thesis by simp
qed


section \<open>Profile updates\<close>

text \<open>
  C7: for every \<open>PATCH /users/:id\<close> with an authenticated session whose user id is not
  the id the path parameter parses to, the answer is 403 and the store is unchanged. The
  role of the session user plays no part: the statement holds for every session user, and
  the witness is an administrator refused on another user's profile.
\<close>

theorem patch_other_user_forbidden:
  assumes "parseInt idParam \<noteq> Num (uw_id sessionUser)"
  shows "patchUserHandler env db (Some sessionUser) idParam reqBody
     = ((403, Message ''You can only update your own profile''), db)"
  using assms by (auto simp: patchUserHandler_def Let_def split: jsnum.splits)

theorem patch_other_user_forbidden_witness:
  "parseInt ''1'' \<noteq> Num (uw_id (withoutPassword admin))
   \<and> uw_role (withoutPassword admin) = ''admin''
   \<and> patchUserHandler exampleEnv usersDb (Some (withoutPassword admin)) ''1''
        (JObj [(''name'', JStr ''Mallory'')])
     = ((403, Message ''You can only update your own profile''), usersDb)"
proof -
  have h: "parseInt ''1'' \<noteq> Num (uw_id (withoutPassword admin))"
    by (simp add: parseInt_defs withoutPassword_def admin_def)
  have r: "uw_role (withoutPassword admin) = ''admin''"
    by (simp add: withoutPassword_def admin_def)
  from patch_other_user_forbidden [OF h, of exampleEnv usersDb] h r show ?thesis by simp
qed

lemma applyUpdates_frame:
  "immutableColumns (applyUpdates (profileUpdates d) u) = immutableColumns u"
  by (simp add: immutableColumns_def applyUpdates_def profileUpdates_def withDefault_def)

lemma applyUpdates_id: "u_id (applyUpdates up u) = u_id u"
  by (simp add: applyUpdates_def)

lemma updateUsersSet_frame:
  "updateUsersSet env db i (profileUpdates d) = Inr (rows, db')
   \<Longrightarrow> map immutableColumns (users db') = map immutableColumns (users db)
       \<and> map (otherThan i) (users db') = map (otherThan i) (users db)
       \<and> db'\<lparr> users := users db \<rparr> = db"
  by (auto simp: updateUsersSet_def Let_def applyUpdates_frame otherThan_def applyUpdates_id
      split: if_splits)

lemma updateUser_frame:
  "map immutableColumns (users (snd (updateUser env db i (profileUpdates d))))
     = map immutableColumns (users db)
   \<and> map (otherThan i) (users (snd (updateUser env db i (profileUpdates d))))
       = map (otherThan i) (users db)
   \<and> (snd (updateUser env db i (profileUpdates d)))\<lparr> users := users db \<rparr> = db"
  by (auto simp: updateUser_def split: option.splits sum.splits list.splits
      dest: updateUsersSet_frame)

text \<open>
  C9: for every \<open>PATCH /users/:id\<close>, successful or not, the id, username, password hash,
  role, profile image and creation time of every user are what they were, row by row;
  nothing but the users table can differ; and every user whose id is not the session
  user's (the only id the handler lets through) is unchanged in every column. So only
  name, email and phone of the addressed user may change. The validated data has no other
  member, so \<open>updateUser\<close> is never given one; the examples after the theorem show a
  successful update whose body asks for a role and a password in vain, and that
  \<open>updateUser\<close> itself would change the role if it were handed one.
\<close>

theorem patch_frame:
  "map immutableColumns (users (snd (patchUserHandler env db reqUser idParam reqBody)))
     = map immutableColumns (users db)
   \<and> (snd (patchUserHandler env db reqUser idParam reqBody))\<lparr> users := users db \<rparr> = db
   \<and> (case reqUser of
         None \<Rightarrow> snd (patchUserHandler env db reqUser idParam reqBody) = db
       | Some sessionUser \<Rightarrow>
           map (otherThan (uw_id sessionUser))
               (users (snd (patchUserHandler env db reqUser idParam reqBody)))
             = map (otherThan (uw_id sessionUser)) (users db))"
proof (cases reqUser)
  case None
  then show ?thesis by (simp add: patchUserHandler_def)
next
  case (Some sessionUser)
  have "snd (patchUserHandler env db reqUser idParam reqBody) = db
     \<or> (\<exists>d. snd (patchUserHandler env db reqUser idParam reqBody)
         = snd (updateUser env db (uw_id sessionUser) (profileUpdates d)))"
    using Some
    by (auto simp: patchUserHandler_def Let_def
        split: option.splits jsnum.splits sum.splits prod.splits)
      (metis snd_conv)+
  then show ?thesis
  proof
    assume "snd (patchUserHandler env db reqUser idParam reqBody) = db"
    with Some show ?thesis by simp
  next
    assume "\<exists>d. snd (patchUserHandler env db reqUser idParam reqBody)
         = snd (updateUser env db (uw_id sessionUser) (profileUpdates d))"
    then obtain d where "snd (patchUserHandler env db reqUser idParam reqBody)
         = snd (updateUser env db (uw_id sessionUser) (profileUpdates d))" by blast
    with Some show ?thesis by (simp add: updateUser_frame)
  qed
qed

lemma patchUserHandler_example:
  "patchUserHandler exampleEnv usersDb (Some (withoutPassword alice)) ''1'' profileBody
     = ((200, MessageUser ''Profile updated successfully''
               (withoutPassword (alice\<lparr> u_name := Some ''Alicia'' \<rparr>))),
        usersDb\<lparr> users := [alice\<lparr> u_name := Some ''Alicia'' \<rparr>, admin] \<rparr>)"
proof -
  have p: "parseInt ''1'' = Num 1" by (simp add: parseInt_defs)
  have v: "updateSchema exampleEnv profileBody
      = Inr \<lparr> pu_name = Some ''Alicia'', pu_email = None, pu_phone = None \<rparr>"
    by (simp add: updateSchema_def profileBody_def zod_defs)
  have g: "getUser usersDb 1 = Some alice"
    by (simp add: getUser_def example_users)
  have u: "updateUser exampleEnv usersDb 1
        (profileUpdates \<lparr> pu_name = Some ''Alicia'', pu_email = None, pu_phone = None \<rparr>)
      = (Some (alice\<lparr> u_name := Some ''Alicia'' \<rparr>),
         usersDb\<lparr> users := [alice\<lparr> u_name := Some ''Alicia'' \<rparr>, admin] \<rparr>)"
    by (simp add: updateUser_def getUser_def updateUsersSet_def Let_def profileUpdates_def
        noValues_def applyUpdates_def withDefault_def usersConflict_def updateTexts_def
        optionalTexts_def nullableTexts_def textOk_def example_users)
  have i: "uw_id (withoutPassword alice) = 1"
    by (simp add: withoutPassword_def alice_def)
  show ?thesis
    by (simp add: patchUserHandler_def Let_def p i v g u)
qed

lemma updateUser_can_change_role:
  "map u_role (users (snd (updateUser exampleEnv usersDb 1
      \<lparr> up_username = None, up_email = None, up_name = None, up_phone = None,
        up_role = Some ''admin'', up_profileImage = None, up_createdAt = None \<rparr>)))
   = [''admin'', ''admin'']"
  by (simp add: updateUser_def getUser_def updateUsersSet_def Let_def noValues_def
      applyUpdates_def withDefault_def usersConflict_def updateTexts_def
      optionalTexts_def nullableTexts_def textOk_def example_users)

end
